theory Spec2Isabelle
  imports Complex_Main
begin

text \<open>
  The AccuWeather MCP server: the provider client (accuweather-client.ts: location key,
  current conditions, daily forecast and the composed fetch) and the two tool handlers
  that shape its results into the documents the tools return. The model keeps what the
  code computes and what it sends: the arguments as JavaScript values, every thrown
  error as a value, every network call in a log, and the time each call takes.
\<close>

section \<open>JavaScript values\<close>

text \<open>
  The client and the tool handlers are TypeScript: at run time their arguments and the
  parsed JSON bodies are plain JavaScript values, whatever the declared types say, and
  the source checks them with \<^verbatim>\<open>typeof\<close>, \<^verbatim>\<open>isNaN\<close>, \<^verbatim>\<open>!x\<close> and \<^verbatim>\<open>Array.isArray\<close>.
  A number is NaN, an infinity or a finite value. Finite doubles are rationals; the
  model admits every rational, which only adds inputs. Every comparison with NaN is
  false, as in JavaScript.
\<close>

datatype jsnum = NaN | PosInf | NegInf | Fin rat

fun js_lt :: "jsnum \<Rightarrow> jsnum \<Rightarrow> bool" where
  "js_lt NaN _ = False"
| "js_lt _ NaN = False"
| "js_lt PosInf _ = False"
| "js_lt _ NegInf = False"
| "js_lt NegInf _ = True"
| "js_lt _ PosInf = True"
| "js_lt (Fin a) (Fin b) = (a < b)"

definition js_gt :: "jsnum \<Rightarrow> jsnum \<Rightarrow> bool" where
  "js_gt a b = js_lt b a"

datatype jsval =
    Undefined
  | Null
  | Bool bool
  | Num jsnum
  | Str string
  | Arr "jsval list"
  | Obj "(string \<times> jsval) list"

text \<open>\<^verbatim>\<open>typeof v === 'number'\<close>, \<^verbatim>\<open>typeof v === 'string'\<close>, \<^verbatim>\<open>Array.isArray(v)\<close>.\<close>

fun is_number :: "jsval \<Rightarrow> bool" where
  "is_number (Num _) = True"
| "is_number _ = False"

fun is_string :: "jsval \<Rightarrow> bool" where
  "is_string (Str _) = True"
| "is_string _ = False"

fun isArray :: "jsval \<Rightarrow> bool" where
  "isArray (Arr _) = True"
| "isArray _ = False"

text \<open>
  The relational operators and \<^verbatim>\<open>isNaN\<close>. The source applies them only behind a
  \<^verbatim>\<open>typeof v !== 'number' ||\<close> guard, so only the number case is ever evaluated; on
  other values the model answers False and the guard has already decided.
\<close>

fun isNaN :: "jsval \<Rightarrow> bool" where
  "isNaN (Num NaN) = True"
| "isNaN _ = False"

fun lt_num :: "jsval \<Rightarrow> rat \<Rightarrow> bool" where
  "lt_num (Num x) q = js_lt x (Fin q)"
| "lt_num _ _ = False"

fun gt_num :: "jsval \<Rightarrow> rat \<Rightarrow> bool" where
  "gt_num (Num x) q = js_gt x (Fin q)"
| "gt_num _ _ = False"

text \<open>Truthiness: what \<^verbatim>\<open>!v\<close> and \<^verbatim>\<open>a || b\<close> test.\<close>

fun truthy :: "jsval \<Rightarrow> bool" where
  "truthy Undefined = False"
| "truthy Null = False"
| "truthy (Bool b) = b"
| "truthy (Num NaN) = False"
| "truthy (Num (Fin q)) = (q \<noteq> 0)"
| "truthy (Num _) = True"
| "truthy (Str s) = (s \<noteq> [])"
| "truthy (Arr _) = True"
| "truthy (Obj _) = True"

text \<open>\<^verbatim>\<open>a ?? b\<close>: the right operand only when the left is null or undefined.\<close>

fun nullish :: "jsval \<Rightarrow> bool" where
  "nullish Undefined = True"
| "nullish Null = True"
| "nullish _ = False"

definition coalesce :: "jsval \<Rightarrow> jsval \<Rightarrow> jsval" where
  "coalesce a b = (if nullish a then b else a)"

text \<open>\<^verbatim>\<open>a || b\<close> on values.\<close>

definition js_or :: "jsval \<Rightarrow> jsval \<Rightarrow> jsval" where
  "js_or a b = (if truthy a then a else b)"

section \<open>Errors\<close>

text \<open>
  Every failure of the source is a thrown \<^verbatim>\<open>Error\<close>; the model has one constructor for
  each \<^verbatim>\<open>throw\<close> site, carrying what the message interpolates:
  \<^item> \<open>InvalidLatitude\<close>, \<open>InvalidLongitude\<close>, \<open>InvalidLocationKey\<close>, \<open>InvalidDays\<close>:
    the argument checks at the head of the client's methods;
  \<^item> \<open>ApiError status text\<close>: \<^verbatim>\<open>AccuWeather API error (${status}): ${errorText || statusText}\<close>;
  \<^item> \<open>MissingLocationKey\<close>, \<open>MissingCurrentConditions\<close>, \<open>MissingDailyForecasts\<close>:
    the three \<^verbatim>\<open>Invalid API response: missing ...\<close> errors;
  \<^item> \<open>RequestTimeout\<close>: \<^verbatim>\<open>Request timeout: AccuWeather API took too long to respond (30s limit)\<close>;
  \<^item> \<open>LocationDetailsFailed status\<close>: \<^verbatim>\<open>Failed to get location details: ${status}\<close>;
  \<^item> \<open>TypeError\<close>: a property read on \<^verbatim>\<open>undefined\<close> or \<^verbatim>\<open>null\<close>, or a call of something
    that is not a function;
  \<^item> \<open>FetchError\<close>: what node-fetch rejects with when the connection fails or the body
    is not JSON.
\<close>

datatype error =
    InvalidLatitude jsval
  | InvalidLongitude jsval
  | InvalidLocationKey
  | InvalidDays jsval
  | ApiError nat string
  | MissingLocationKey
  | MissingCurrentConditions
  | MissingDailyForecasts
  | RequestTimeout
  | LocationDetailsFailed nat
  | TypeError
  | FetchError

text \<open>
  The specification's error taxonomy, read off the messages: which of its four kinds
  each thrown error is. \<open>TypeError\<close> and \<open>FetchError\<close> are none of them.
\<close>

datatype error_kind =
    InvalidArgument
  | UpstreamTimeout
  | UpstreamError
  | UpstreamProtocolError
  | Unclassified

fun kind_of :: "error \<Rightarrow> error_kind" where
  "kind_of (InvalidLatitude _) = InvalidArgument"
| "kind_of (InvalidLongitude _) = InvalidArgument"
| "kind_of InvalidLocationKey = InvalidArgument"
| "kind_of (InvalidDays _) = InvalidArgument"
| "kind_of (ApiError _ _) = UpstreamError"
| "kind_of (LocationDetailsFailed _) = UpstreamError"
| "kind_of MissingLocationKey = UpstreamProtocolError"
| "kind_of MissingCurrentConditions = UpstreamProtocolError"
| "kind_of MissingDailyForecasts = UpstreamProtocolError"
| "kind_of RequestTimeout = UpstreamTimeout"
| "kind_of TypeError = Unclassified"
| "kind_of FetchError = Unclassified"

section \<open>Property access, indexing, slicing, splitting\<close>

text \<open>
  \<^verbatim>\<open>v.k\<close>: a TypeError on \<^verbatim>\<open>undefined\<close> and \<^verbatim>\<open>null\<close>, the property's value on an object
  (\<^verbatim>\<open>undefined\<close> when it has none), and \<^verbatim>\<open>undefined\<close> on every other value: the names the
  source reads (\<^verbatim>\<open>Key\<close>, \<^verbatim>\<open>DailyForecasts\<close>, \<^verbatim>\<open>Date\<close>, ...) are properties of no
  prototype. An object is its list of properties, one entry for each name.
\<close>

fun get_prop :: "jsval \<Rightarrow> string \<Rightarrow> error + jsval" where
  "get_prop Undefined k = Inl TypeError"
| "get_prop Null k = Inl TypeError"
| "get_prop (Obj kvs) k = Inr (case map_of kvs k of None \<Rightarrow> Undefined | Some v \<Rightarrow> v)"
| "get_prop _ k = Inr Undefined"

text \<open>\<^verbatim>\<open>v.k1.k2...\<close>, left to right.\<close>

fun get_path :: "jsval \<Rightarrow> string list \<Rightarrow> error + jsval" where
  "get_path v [] = Inr v"
| "get_path v (k # ks) = (case get_prop v k of Inl e \<Rightarrow> Inl e | Inr w \<Rightarrow> get_path w ks)"

text \<open>\<^verbatim>\<open>v?.k\<close>.\<close>

definition opt_prop :: "jsval \<Rightarrow> string \<Rightarrow> error + jsval" where
  "opt_prop v k = (if nullish v then Inr Undefined else get_prop v k)"

text \<open>The elements of an array value; the source reads them only behind \<^verbatim>\<open>Array.isArray\<close>.\<close>

fun elements :: "jsval \<Rightarrow> jsval list" where
  "elements (Arr xs) = xs"
| "elements _ = []"

text \<open>\<^verbatim>\<open>xs[i]\<close>: \<^verbatim>\<open>undefined\<close> out of range, also at index -1.\<close>

definition js_index :: "jsval list \<Rightarrow> int \<Rightarrow> jsval" where
  "js_index xs i = (if 0 \<le> i \<and> i < int (length xs) then xs ! nat i else Undefined)"

text \<open>
  \<^verbatim>\<open>xs.slice(0, e)\<close>. The end is taken through ToIntegerOrInfinity (NaN is 0, a fraction
  is cut towards zero); a negative end counts from the back; the end is clamped to the
  length.
\<close>

definition trunc :: "rat \<Rightarrow> int" where
  "trunc q = (if 0 \<le> q then \<lfloor>q\<rfloor> else \<lceil>q\<rceil>)"

fun slice_end :: "nat \<Rightarrow> jsnum \<Rightarrow> nat" where
  "slice_end len NaN = 0"
| "slice_end len PosInf = len"
| "slice_end len NegInf = 0"
| "slice_end len (Fin q) =
     (if trunc q < 0 then nat (max (int len + trunc q) 0) else min (nat (trunc q)) len)"

definition slice0 :: "'a list \<Rightarrow> jsnum \<Rightarrow> 'a list" where
  "slice0 xs e = take (slice_end (length xs) e) xs"

text \<open>The number behind a value that has passed \<^verbatim>\<open>typeof v === 'number'\<close>.\<close>

fun num_of :: "jsval \<Rightarrow> jsnum" where
  "num_of (Num n) = n"
| "num_of _ = NaN"

text \<open>\<^verbatim>\<open>s.split(c)\<close> for a separator of one character: never an empty array.\<close>

fun split_on :: "char \<Rightarrow> string \<Rightarrow> string list" where
  "split_on c [] = [[]]"
| "split_on c (x # xs) =
     (if x = c then [] # split_on c xs
      else (case split_on c xs of [] \<Rightarrow> [[x]] | w # ws \<Rightarrow> (x # w) # ws))"

section \<open>The provider and the network\<close>

text \<open>
  A response as the client reads it: the status line, the body as text (what
  \<^verbatim>\<open>response.text()\<close> resolves to) and the body as parsed JSON (what \<^verbatim>\<open>response.json()\<close>
  resolves to; \<open>None\<close> when the body is not JSON and the call rejects).
  \<^verbatim>\<open>response.ok\<close> is node-fetch's: a status from 200 to 299.
\<close>

record http_response =
  status :: nat
  statusText :: string
  bodyText :: string
  bodyJson :: "jsval option"

definition ok :: "http_response \<Rightarrow> bool" where
  "ok r = (200 \<le> status r \<and> status r < 300)"

text \<open>
  The four URLs the client builds, kept as their parts (base URL, endpoint with the
  values interpolated into it, API key) instead of the formatted string:
  \<^item> \<open>GeopositionSearch lat lon\<close>: \<^verbatim>\<open>/locations/v1/cities/geoposition/search?apikey=&q=${lat},${lon}&language=en-us\<close>
  \<^item> \<open>CurrentConditionsOf key\<close>: \<^verbatim>\<open>/currentconditions/v1/${locationKey}?apikey=&details=true&language=en-us\<close>
  \<^item> \<open>DailyForecastOf days key\<close>: \<^verbatim>\<open>/forecasts/v1/daily/${days}day/${locationKey}?apikey=&details=true&metric=true&language=en-us\<close>
  \<^item> \<open>LocationByKey key\<close>: \<^verbatim>\<open>/locations/v1/${locationKey}?apikey=&language=en-us\<close>
\<close>

datatype endpoint =
    GeopositionSearch jsval jsval
  | CurrentConditionsOf jsval
  | DailyForecastOf jsval jsval
  | LocationByKey jsval

datatype url = Url string endpoint string

text \<open>
  The world outside: for each URL, the provider answers after some milliseconds, or the
  connection fails after some milliseconds, or nothing ever comes back. A response is
  taken to arrive whole, status and body at one instant.
\<close>

datatype net_reply = Responds nat http_response | Fails nat | Hangs

type_synonym provider = "url \<Rightarrow> net_reply"

datatype fetch_failure = AbortError | NetworkError

text \<open>
  \<^verbatim>\<open>fetch(url, {signal})\<close> with \<^verbatim>\<open>setTimeout(() => controller.abort(), limit)\<close> running:
  whatever has not come back before the timer fires is aborted at that moment. The
  result is the time the promise settles and what it settles to.
\<close>

definition fetch_abortable :: "provider \<Rightarrow> url \<Rightarrow> nat \<Rightarrow> nat \<times> (fetch_failure + http_response)" where
  "fetch_abortable net u limit =
     (case net u of
        Responds d r \<Rightarrow> if d < limit then (d, Inr r) else (limit, Inl AbortError)
      | Fails d \<Rightarrow> if d < limit then (d, Inl NetworkError) else (limit, Inl AbortError)
      | Hangs \<Rightarrow> (limit, Inl AbortError))"

text \<open>\<^verbatim>\<open>fetch(url)\<close> with no signal: \<open>None\<close> when the promise never settles.\<close>

definition fetch_plain :: "provider \<Rightarrow> url \<Rightarrow> (nat \<times> (fetch_failure + http_response)) option" where
  "fetch_plain net u =
     (case net u of
        Responds d r \<Rightarrow> Some (d, Inr r)
      | Fails d \<Rightarrow> Some (d, Inl NetworkError)
      | Hangs \<Rightarrow> None)"

text \<open>
  One run of an async method: the milliseconds until its promise settles, what it
  settles to, and the network calls it issued, in order, each with the abort timer it
  runs under (\<open>None\<close>: no signal was passed to \<^verbatim>\<open>fetch\<close>).
\<close>

datatype call = Call url "nat option"

datatype 'a run = Run (elapsed: nat) (outcome: "error + 'a") (calls: "call list")

text \<open>
  \<^verbatim>\<open>Promise.all([p, q])\<close>: both calls are already under way; it resolves when both have,
  and rejects with the rejection that comes first (the first of the array on a tie).
\<close>

definition promise_all :: "'a run \<Rightarrow> 'b run \<Rightarrow> ('a \<times> 'b) run" where
  "promise_all p q =
     (case (outcome p, outcome q) of
        (Inr a, Inr b) \<Rightarrow> Run (max (elapsed p) (elapsed q)) (Inr (a, b)) (calls p @ calls q)
      | (Inl e, Inr b) \<Rightarrow> Run (elapsed p) (Inl e) (calls p @ calls q)
      | (Inr a, Inl e) \<Rightarrow> Run (elapsed q) (Inl e) (calls p @ calls q)
      | (Inl e1, Inl e2) \<Rightarrow>
          if elapsed p \<le> elapsed q then Run (elapsed p) (Inl e1) (calls p @ calls q)
          else Run (elapsed q) (Inl e2) (calls p @ calls q))"

section \<open>The client (accuweather-client.ts)\<close>

record client =
  apiKey :: string
  baseUrl :: string

text \<open>The constructor, with the default base URL.\<close>

definition new_client :: "string \<Rightarrow> client" where
  "new_client k = \<lparr>apiKey = k, baseUrl = ''https://dataservice.accuweather.com''\<rparr>"

text \<open>What every method does with a response that is not ok: lines 105-108, 152-155, 201-204.\<close>

definition api_error :: "http_response \<Rightarrow> error" where
  "api_error response =
     ApiError (status response)
       (if bodyText response \<noteq> [] then bodyText response else statusText response)"

subsection \<open>getLocationKey\<close>

text \<open>
  The body of the \<^verbatim>\<open>try\<close> after the fetch has resolved. The log line reads
  \<^verbatim>\<open>data.LocalizedName\<close> and \<^verbatim>\<open>data.Country.LocalizedName\<close> before the key is returned, so
  a body with a key and no \<^verbatim>\<open>Country\<close> ends in a TypeError.
\<close>

definition read_location_key :: "http_response \<Rightarrow> error + jsval" where
  "read_location_key response =
     (if \<not> ok response then Inl (api_error response)
      else (case bodyJson response of
          None \<Rightarrow> Inl FetchError
        | Some data \<Rightarrow>
            if \<not> truthy data then Inl MissingLocationKey
            else (case get_prop data ''Key'' of
                Inl e \<Rightarrow> Inl e
              | Inr k \<Rightarrow>
                  if \<not> truthy k then Inl MissingLocationKey
                  else (case get_path data [''Country'', ''LocalizedName''] of
                      Inl e \<Rightarrow> Inl e
                    | Inr _ \<Rightarrow> Inr k))))"

definition getLocationKey :: "client \<Rightarrow> provider \<Rightarrow> jsval \<Rightarrow> jsval \<Rightarrow> jsval run" where
  "getLocationKey c net lat lon =
     (if \<not> is_number lat \<or> isNaN lat \<or> lt_num lat (- 90) \<or> gt_num lat 90
      then Run 0 (Inl (InvalidLatitude lat)) []
      else if \<not> is_number lon \<or> isNaN lon \<or> lt_num lon (- 180) \<or> gt_num lon 180
      then Run 0 (Inl (InvalidLongitude lon)) []
      else
        (let u = Url (baseUrl c) (GeopositionSearch lat lon) (apiKey c) in
         (case fetch_abortable net u 30000 of
            (t, Inl AbortError) \<Rightarrow> Run t (Inl RequestTimeout) [Call u (Some 30000)]
          | (t, Inl NetworkError) \<Rightarrow> Run t (Inl FetchError) [Call u (Some 30000)]
          | (t, Inr response) \<Rightarrow> Run t (read_location_key response) [Call u (Some 30000)])))"

subsection \<open>getCurrentConditions\<close>

definition read_current_conditions :: "http_response \<Rightarrow> error + jsval" where
  "read_current_conditions response =
     (if \<not> ok response then Inl (api_error response)
      else (case bodyJson response of
          None \<Rightarrow> Inl FetchError
        | Some data \<Rightarrow>
            if \<not> truthy data \<or> \<not> isArray data \<or> length (elements data) = 0
            then Inl MissingCurrentConditions
            else Inr (js_index (elements data) 0)))"

definition getCurrentConditions :: "client \<Rightarrow> provider \<Rightarrow> jsval \<Rightarrow> jsval run" where
  "getCurrentConditions c net locationKey =
     (if \<not> truthy locationKey \<or> \<not> is_string locationKey
      then Run 0 (Inl InvalidLocationKey) []
      else
        (let u = Url (baseUrl c) (CurrentConditionsOf locationKey) (apiKey c) in
         (case fetch_abortable net u 30000 of
            (t, Inl AbortError) \<Rightarrow> Run t (Inl RequestTimeout) [Call u (Some 30000)]
          | (t, Inl NetworkError) \<Rightarrow> Run t (Inl FetchError) [Call u (Some 30000)]
          | (t, Inr response) \<Rightarrow> Run t (read_current_conditions response) [Call u (Some 30000)])))"

subsection \<open>getForecast\<close>

text \<open>The default of the parameter \<^verbatim>\<open>days: number = 5\<close>: taken when the argument is \<^verbatim>\<open>undefined\<close>.\<close>

definition default_days :: "jsval \<Rightarrow> jsval" where
  "default_days d = (if d = Undefined then Num (Fin 5) else d)"

definition read_forecast :: "jsval \<Rightarrow> http_response \<Rightarrow> error + jsval list" where
  "read_forecast days response =
     (if \<not> ok response then Inl (api_error response)
      else (case bodyJson response of
          None \<Rightarrow> Inl FetchError
        | Some data \<Rightarrow>
            if \<not> truthy data then Inl MissingDailyForecasts
            else (case get_prop data ''DailyForecasts'' of
                Inl e \<Rightarrow> Inl e
              | Inr df \<Rightarrow>
                  if \<not> truthy df \<or> \<not> isArray df then Inl MissingDailyForecasts
                  else Inr (slice0 (elements df) (num_of days)))))"

definition getForecast :: "client \<Rightarrow> provider \<Rightarrow> jsval \<Rightarrow> jsval \<Rightarrow> jsval list run" where
  "getForecast c net locationKey days_arg =
     (let days = default_days days_arg in
      if \<not> truthy locationKey \<or> \<not> is_string locationKey
      then Run 0 (Inl InvalidLocationKey) []
      else if \<not> is_number days \<or> lt_num days 1 \<or> gt_num days 15
      then Run 0 (Inl (InvalidDays days)) []
      else
        (let u = Url (baseUrl c) (DailyForecastOf days locationKey) (apiKey c) in
         (case fetch_abortable net u 30000 of
            (t, Inl AbortError) \<Rightarrow> Run t (Inl RequestTimeout) [Call u (Some 30000)]
          | (t, Inl NetworkError) \<Rightarrow> Run t (Inl FetchError) [Call u (Some 30000)]
          | (t, Inr response) \<Rightarrow> Run t (read_forecast days response) [Call u (Some 30000)])))"

subsection \<open>getWeatherForecast\<close>

record forecast_bundle =
  location :: jsval
  current :: jsval
  forecast :: "jsval list"

text \<open>
  The location-details fetch of lines 236-249: \<^verbatim>\<open>fetch\<close> is called with headers only, no
  signal and no timer, and sits in no \<^verbatim>\<open>try\<close>. \<open>None\<close>: the promise never settles.
\<close>

definition getWeatherForecast ::
    "client \<Rightarrow> provider \<Rightarrow> jsval \<Rightarrow> jsval \<Rightarrow> jsval \<Rightarrow> forecast_bundle run option" where
  "getWeatherForecast c net lat lon days_arg =
     (let days = default_days days_arg in
      (case getLocationKey c net lat lon of
         Run t1 (Inl e) cs1 \<Rightarrow> Some (Run t1 (Inl e) cs1)
       | Run t1 (Inr locationKey) cs1 \<Rightarrow>
           (case promise_all (getCurrentConditions c net locationKey)
                             (getForecast c net locationKey days) of
              Run t2 (Inl e) cs2 \<Rightarrow> Some (Run (t1 + t2) (Inl e) (cs1 @ cs2))
            | Run t2 (Inr (cur, fc)) cs2 \<Rightarrow>
                (let u = Url (baseUrl c) (LocationByKey locationKey) (apiKey c);
                     cs = cs1 @ cs2 @ [Call u None] in
                 (case fetch_plain net u of
                    None \<Rightarrow> None
                  | Some (t3, Inl _) \<Rightarrow> Some (Run (t1 + t2 + t3) (Inl FetchError) cs)
                  | Some (t3, Inr locationResponse) \<Rightarrow>
                      if \<not> ok locationResponse
                      then Some (Run (t1 + t2 + t3)
                                   (Inl (LocationDetailsFailed (status locationResponse))) cs)
                      else (case bodyJson locationResponse of
                          None \<Rightarrow> Some (Run (t1 + t2 + t3) (Inl FetchError) cs)
                        | Some loc \<Rightarrow>
                            Some (Run (t1 + t2 + t3)
                                    (Inr \<lparr>location = loc, current = cur, forecast = fc\<rparr>) cs)))))))"

section \<open>The tool handlers (index.ts)\<close>

text \<open>
  An object literal: its eval_fields are evaluated in the order written, and the first one
  that throws ends the evaluation.
\<close>

fun eval_fields :: "(string \<times> (error + jsval)) list \<Rightarrow> error + (string \<times> jsval) list" where
  "eval_fields [] = Inr []"
| "eval_fields ((k, Inl e) # rest) = Inl e"
| "eval_fields ((k, Inr v) # rest) =
     (case eval_fields rest of Inl e \<Rightarrow> Inl e | Inr kvs \<Rightarrow> Inr ((k, v) # kvs))"

definition object_literal :: "(string \<times> (error + jsval)) list \<Rightarrow> error + jsval" where
  "object_literal fs = (case eval_fields fs of Inl e \<Rightarrow> Inl e | Inr kvs \<Rightarrow> Inr (Obj kvs))"

text \<open>\<^verbatim>\<open>xs.map(f)\<close> with an \<^verbatim>\<open>f\<close> that may throw.\<close>

fun map_err :: "('a \<Rightarrow> error + 'b) \<Rightarrow> 'a list \<Rightarrow> error + 'b list" where
  "map_err f [] = Inr []"
| "map_err f (x # xs) =
     (case f x of
        Inl e \<Rightarrow> Inl e
      | Inr y \<Rightarrow> (case map_err f xs of Inl e \<Rightarrow> Inl e | Inr ys \<Rightarrow> Inr (y # ys)))"

subsection \<open>Shaping the forecast document (lines 144-181)\<close>

text \<open>
  \<^verbatim>\<open>day.Date.split('T')[0]\<close>: a TypeError unless \<^verbatim>\<open>day.Date\<close> is a string (nothing else
  a JSON body can hold has a \<^verbatim>\<open>split\<close> method).
\<close>

definition date_of :: "jsval \<Rightarrow> error + jsval" where
  "date_of day =
     (case get_prop day ''Date'' of
        Inl e \<Rightarrow> Inl e
      | Inr d \<Rightarrow>
          (case d of
             Str s \<Rightarrow> Inr (case split_on CHR ''T'' s of [] \<Rightarrow> Undefined | p # _ \<Rightarrow> Str p)
           | _ \<Rightarrow> Inl TypeError))"

text \<open>The arrow function of \<^verbatim>\<open>data.forecast.map\<close>.\<close>

definition shape_day :: "jsval \<Rightarrow> error + jsval" where
  "shape_day day = object_literal
     [(''date'', date_of day),
      (''max_temp'', get_path day [''Temperature'', ''Maximum'', ''Value'']),
      (''min_temp'', get_path day [''Temperature'', ''Minimum'', ''Value'']),
      (''temp_unit'', get_path day [''Temperature'', ''Maximum'', ''Unit'']),
      (''day_conditions'', get_path day [''Day'', ''IconPhrase'']),
      (''day_precipitation_probability'', get_path day [''Day'', ''PrecipitationProbability'']),
      (''night_conditions'', get_path day [''Night'', ''IconPhrase'']),
      (''night_precipitation_probability'', get_path day [''Night'', ''PrecipitationProbability'']),
      (''wind_speed'', get_path day [''Day'', ''Wind'', ''Speed'', ''Value'']),
      (''wind_unit'', get_path day [''Day'', ''Wind'', ''Speed'', ''Unit''])]"

text \<open>\<^verbatim>\<open>data.location.AdministrativeArea?.LocalizedName\<close>.\<close>

definition region_of :: "jsval \<Rightarrow> error + jsval" where
  "region_of loc =
     (case get_prop loc ''AdministrativeArea'' of
        Inl e \<Rightarrow> Inl e
      | Inr a \<Rightarrow> opt_prop a ''LocalizedName'')"

text \<open>
  The shaping step of the forecast tool: the mapped forecast, then the response literal.
  \<^verbatim>\<open>forecast[0].date\<close> and \<^verbatim>\<open>forecast[forecast.length - 1].date\<close> read a property of
  \<^verbatim>\<open>undefined\<close> when the forecast is empty.
\<close>

definition shapeForecastResponse ::
    "jsval \<Rightarrow> jsval \<Rightarrow> forecast_bundle \<Rightarrow> jsval \<Rightarrow> error + jsval" where
  "shapeForecastResponse lat lon data days =
     (case map_err shape_day (forecast data) of
        Inl e \<Rightarrow> Inl e
      | Inr fc \<Rightarrow> object_literal
          [(''location'', object_literal
              [(''latitude'', Inr lat),
               (''longitude'', Inr lon),
               (''name'', get_path (location data) [''LocalizedName'']),
               (''country'', get_path (location data) [''Country'', ''LocalizedName'']),
               (''region'', region_of (location data))]),
           (''current'', object_literal
              [(''temperature'', get_path (current data) [''Temperature'', ''Metric'', ''Value'']),
               (''temp_unit'', get_path (current data) [''Temperature'', ''Metric'', ''Unit'']),
               (''conditions'', get_path (current data) [''WeatherText'']),
               (''humidity'', get_path (current data) [''RelativeHumidity'']),
               (''wind_speed'', get_path (current data) [''Wind'', ''Speed'', ''Metric'', ''Value'']),
               (''wind_unit'', get_path (current data) [''Wind'', ''Speed'', ''Metric'', ''Unit'']),
               (''wind_direction'', get_path (current data) [''Wind'', ''Direction'', ''Localized''])]),
           (''period'', object_literal
              [(''days'', Inr days),
               (''start_date'', get_prop (js_index fc 0) ''date''),
               (''end_date'', get_prop (js_index fc (int (length fc) - 1)) ''date'')]),
           (''forecast'', Inr (Arr fc)),
           (''data_source'', Inr (Str ''AccuWeather API''))])"

subsection \<open>Shaping the current-conditions document (lines 232-249)\<close>

definition shapeCurrentConditionsResponse :: "jsval \<Rightarrow> jsval \<Rightarrow> jsval \<Rightarrow> error + jsval" where
  "shapeCurrentConditionsResponse lat lon cur = object_literal
     [(''location'', object_literal
         [(''latitude'', Inr lat),
          (''longitude'', Inr lon)]),
      (''current'', object_literal
         [(''temperature'', get_path cur [''Temperature'', ''Metric'', ''Value'']),
          (''temp_unit'', get_path cur [''Temperature'', ''Metric'', ''Unit'']),
          (''conditions'', get_path cur [''WeatherText'']),
          (''humidity'', get_path cur [''RelativeHumidity'']),
          (''wind_speed'', get_path cur [''Wind'', ''Speed'', ''Metric'', ''Value'']),
          (''wind_unit'', get_path cur [''Wind'', ''Speed'', ''Metric'', ''Unit'']),
          (''wind_direction'', get_path cur [''Wind'', ''Direction'', ''Localized'']),
          (''has_precipitation'', get_path cur [''HasPrecipitation'']),
          (''precipitation_type'',
             (case get_prop cur ''PrecipitationType'' of
                Inl e \<Rightarrow> Inl e
              | Inr p \<Rightarrow> Inr (js_or p (Str ''none''))))]),
      (''data_source'', Inr (Str ''AccuWeather API''))]"

subsection \<open>The two handlers\<close>

text \<open>
  What a handler returns: a failure document (\<^verbatim>\<open>isError: true\<close>) or the shaped document.
  The model keeps the document itself and the cause of a failure; the texts and
  \<^verbatim>\<open>JSON.stringify\<close> are left out. The arguments are what the schema has let through;
  a coordinate that was not given is \<^verbatim>\<open>undefined\<close>.
\<close>

datatype tool_failure = BadLatitude | BadLongitude | BadDays | NoClient | Caught error

datatype tool_result = IsError tool_failure | Content jsval

definition NAIROBI_LAT :: jsval where
  "NAIROBI_LAT = Num (Fin (- (12864 / 10000)))"

definition NAIROBI_LON :: jsval where
  "NAIROBI_LON = Num (Fin (368172 / 10000))"

definition forecast_tool ::
    "client option \<Rightarrow> provider \<Rightarrow> jsval \<Rightarrow> jsval \<Rightarrow> jsval \<Rightarrow> jsval \<Rightarrow> jsval \<Rightarrow> tool_result option" where
  "forecast_tool accuWeatherClient net defaultLatitude defaultLongitude latitude longitude days_arg =
     (let days = default_days days_arg;
          lat = coalesce (coalesce latitude defaultLatitude) NAIROBI_LAT;
          lon = coalesce (coalesce longitude defaultLongitude) NAIROBI_LON
      in
      if \<not> is_number lat \<or> isNaN lat \<or> lt_num lat (- 90) \<or> gt_num lat 90
      then Some (IsError BadLatitude)
      else if \<not> is_number lon \<or> isNaN lon \<or> lt_num lon (- 180) \<or> gt_num lon 180
      then Some (IsError BadLongitude)
      else if \<not> is_number days \<or> lt_num days 1 \<or> gt_num days 15
      then Some (IsError BadDays)
      else (case accuWeatherClient of
          None \<Rightarrow> Some (IsError NoClient)
        | Some c \<Rightarrow>
            (case getWeatherForecast c net lat lon days of
               None \<Rightarrow> None
             | Some r \<Rightarrow>
                 (case outcome r of
                    Inl e \<Rightarrow> Some (IsError (Caught e))
                  | Inr data \<Rightarrow>
                      (case shapeForecastResponse lat lon data days of
                         Inl e \<Rightarrow> Some (IsError (Caught e))
                       | Inr doc \<Rightarrow> Some (Content doc))))))"

definition current_conditions_tool ::
    "client option \<Rightarrow> provider \<Rightarrow> jsval \<Rightarrow> jsval \<Rightarrow> jsval \<Rightarrow> jsval \<Rightarrow> tool_result" where
  "current_conditions_tool accuWeatherClient net defaultLatitude defaultLongitude latitude longitude =
     (let lat = coalesce (coalesce latitude defaultLatitude) NAIROBI_LAT;
          lon = coalesce (coalesce longitude defaultLongitude) NAIROBI_LON
      in
      (case accuWeatherClient of
         None \<Rightarrow> IsError NoClient
       | Some c \<Rightarrow>
           (case outcome (getLocationKey c net lat lon) of
              Inl e \<Rightarrow> IsError (Caught e)
            | Inr locationKey \<Rightarrow>
                (case outcome (getCurrentConditions c net locationKey) of
                   Inl e \<Rightarrow> IsError (Caught e)
                 | Inr cur \<Rightarrow>
                     (case shapeCurrentConditionsResponse lat lon cur of
                        Inl e \<Rightarrow> IsError (Caught e)
                      | Inr doc \<Rightarrow> Content doc)))))"

section \<open>The declared interfaces\<close>

text \<open>
  The three interfaces accuweather-client.ts declares, with the nested object types
  flattened into field names (\<open>Temperature_Minimum\<close> is \<^verbatim>\<open>Temperature.Minimum\<close>), and the
  JavaScript object each value of them is at run time. The client casts the parsed body
  to these types without checking it; the encodings say what a body that does have the
  declared shape looks like.
\<close>

record value_unit =
  Value :: jsnum
  Unit :: string

definition js_value_unit :: "value_unit \<Rightarrow> jsval" where
  "js_value_unit v = Obj [(''Value'', Num (Value v)), (''Unit'', Str (Unit v))]"

record AccuWeatherLocation =
  Key :: string
  LocalizedName :: string
  Country_ID :: string
  Country_LocalizedName :: string
  AdministrativeArea_ID :: string
  AdministrativeArea_LocalizedName :: string

definition js_location :: "AccuWeatherLocation \<Rightarrow> jsval" where
  "js_location l = Obj
     [(''Key'', Str (Key l)),
      (''LocalizedName'', Str (LocalizedName l)),
      (''Country'', Obj [(''ID'', Str (Country_ID l)),
                         (''LocalizedName'', Str (Country_LocalizedName l))]),
      (''AdministrativeArea'', Obj [(''ID'', Str (AdministrativeArea_ID l)),
                                    (''LocalizedName'', Str (AdministrativeArea_LocalizedName l))])]"

record AccuWeatherForecast =
  Date :: string
  Temperature_Minimum :: value_unit
  Temperature_Maximum :: value_unit
  Day_Icon :: jsnum
  Day_IconPhrase :: string
  Day_PrecipitationProbability :: jsnum
  Day_Wind_Speed :: value_unit
  Night_Icon :: jsnum
  Night_IconPhrase :: string
  Night_PrecipitationProbability :: jsnum

definition js_forecast :: "AccuWeatherForecast \<Rightarrow> jsval" where
  "js_forecast f = Obj
     [(''Date'', Str (Date f)),
      (''Temperature'', Obj [(''Minimum'', js_value_unit (Temperature_Minimum f)),
                             (''Maximum'', js_value_unit (Temperature_Maximum f))]),
      (''Day'', Obj [(''Icon'', Num (Day_Icon f)),
                     (''IconPhrase'', Str (Day_IconPhrase f)),
                     (''PrecipitationProbability'', Num (Day_PrecipitationProbability f)),
                     (''Wind'', Obj [(''Speed'', js_value_unit (Day_Wind_Speed f))])]),
      (''Night'', Obj [(''Icon'', Num (Night_Icon f)),
                       (''IconPhrase'', Str (Night_IconPhrase f)),
                       (''PrecipitationProbability'', Num (Night_PrecipitationProbability f))])]"

text \<open>\<^verbatim>\<open>PrecipitationType?: string\<close>: the property may be missing.\<close>

record AccuWeatherCurrentConditions =
  LocalObservationDateTime :: string
  Temperature_Metric :: value_unit
  Temperature_Imperial :: value_unit
  WeatherText :: string
  WeatherIcon :: jsnum
  RelativeHumidity :: jsnum
  Wind_Speed_Metric :: value_unit
  Wind_Direction_Degrees :: jsnum
  Wind_Direction_Localized :: string
  PrecipitationType :: "string option"
  HasPrecipitation :: bool

definition js_conditions :: "AccuWeatherCurrentConditions \<Rightarrow> jsval" where
  "js_conditions c = Obj
     ([(''LocalObservationDateTime'', Str (LocalObservationDateTime c)),
       (''Temperature'', Obj [(''Metric'', js_value_unit (Temperature_Metric c)),
                              (''Imperial'', js_value_unit (Temperature_Imperial c))]),
       (''WeatherText'', Str (WeatherText c)),
       (''WeatherIcon'', Num (WeatherIcon c)),
       (''RelativeHumidity'', Num (RelativeHumidity c)),
       (''Wind'', Obj [(''Speed'', Obj [(''Metric'', js_value_unit (Wind_Speed_Metric c))]),
                       (''Direction'', Obj [(''Degrees'', Num (Wind_Direction_Degrees c)),
                                            (''Localized'', Str (Wind_Direction_Localized c))])]),
       (''HasPrecipitation'', Bool (HasPrecipitation c))]
      @ (case PrecipitationType c of None \<Rightarrow> [] | Some p \<Rightarrow> [(''PrecipitationType'', Str p)]))"

text \<open>What the arrow function of \<^verbatim>\<open>data.forecast.map\<close> makes of an entry of the declared type:
  the part of \<^verbatim>\<open>Date\<close> before the first T, and nine fields copied.\<close>

definition shaped_day :: "AccuWeatherForecast \<Rightarrow> jsval" where
  "shaped_day f = Obj
     [(''date'', Str (takeWhile (\<lambda>x. x \<noteq> CHR ''T'') (Date f))),
      (''max_temp'', Num (Value (Temperature_Maximum f))),
      (''min_temp'', Num (Value (Temperature_Minimum f))),
      (''temp_unit'', Str (Unit (Temperature_Maximum f))),
      (''day_conditions'', Str (Day_IconPhrase f)),
      (''day_precipitation_probability'', Num (Day_PrecipitationProbability f)),
      (''night_conditions'', Str (Night_IconPhrase f)),
      (''night_precipitation_probability'', Num (Night_PrecipitationProbability f)),
      (''wind_speed'', Num (Value (Day_Wind_Speed f))),
      (''wind_unit'', Str (Unit (Day_Wind_Speed f)))]"

text \<open>A result whose only possible error is a TypeError: the one way a shaping step fails.\<close>

definition type_error_only :: "error + 'a \<Rightarrow> bool" where
  "type_error_only r = (\<forall>e. r = Inl e \<longrightarrow> e = TypeError)"

subsection \<open>ISO date-times\<close>

text \<open>
  A calendar date is \<^verbatim>\<open>YYYY-MM-DD\<close>; an ISO date-time is a calendar date, the letter T and
  a time of day (which the model leaves free).
\<close>

definition is_digit :: "char \<Rightarrow> bool" where
  "is_digit ch = (ch \<in> set ''0123456789'')"

definition is_calendar_date :: "string \<Rightarrow> bool" where
  "is_calendar_date s =
     (length s = 10 \<and> is_digit (s ! 0) \<and> is_digit (s ! 1) \<and> is_digit (s ! 2) \<and> is_digit (s ! 3)
      \<and> s ! 4 = CHR ''-'' \<and> is_digit (s ! 5) \<and> is_digit (s ! 6)
      \<and> s ! 7 = CHR ''-'' \<and> is_digit (s ! 8) \<and> is_digit (s ! 9))"

definition is_iso_datetime :: "string \<Rightarrow> bool" where
  "is_iso_datetime s = (10 < length s \<and> is_calendar_date (take 10 s) \<and> s ! 10 = CHR ''T'')"

section \<open>The specification's preconditions\<close>

text \<open>
  ``A finite number in [lo, hi]'', the form of the specification's preconditions on
  latitude, longitude and day count: a number, not NaN, not an infinity, and between
  the bounds. Whether it is a whole number is a separate question.
\<close>

definition finite_in :: "rat \<Rightarrow> rat \<Rightarrow> jsval \<Rightarrow> bool" where
  "finite_in lo hi v = (case v of Num (Fin q) \<Rightarrow> lo \<le> q \<and> q \<le> hi | _ \<Rightarrow> False)"

definition is_integer :: "jsval \<Rightarrow> bool" where
  "is_integer v = (case v of Num (Fin q) \<Rightarrow> of_int \<lfloor>q\<rfloor> = q | _ \<Rightarrow> False)"

text \<open>Reading a path of the document a shaping step has produced (its error when it has failed).\<close>

definition doc_path :: "error + jsval \<Rightarrow> string list \<Rightarrow> error + jsval" where
  "doc_path r ks = (case r of Inl e \<Rightarrow> Inl e | Inr doc \<Rightarrow> get_path doc ks)"

section \<open>Sample data\<close>

text \<open>A provider, a client and responses to run the definitions on.\<close>

definition json_response :: "jsval \<Rightarrow> http_response" where
  "json_response v = \<lparr>status = 200, statusText = ''OK'', bodyText = [], bodyJson = Some v\<rparr>"

definition error_response :: "nat \<Rightarrow> string \<Rightarrow> string \<Rightarrow> http_response" where
  "error_response st reason body =
     \<lparr>status = st, statusText = reason, bodyText = body, bodyJson = None\<rparr>"

definition celsius :: "rat \<Rightarrow> value_unit" where
  "celsius q = \<lparr>Value = Fin q, Unit = ''C''\<rparr>"

definition nairobi :: AccuWeatherLocation where
  "nairobi = \<lparr>Key = ''224758'', LocalizedName = ''Nairobi'', Country_ID = ''KE'',
     Country_LocalizedName = ''Kenya'', AdministrativeArea_ID = ''30'',
     AdministrativeArea_LocalizedName = ''Nairobi''\<rparr>"

definition sample_day :: "string \<Rightarrow> AccuWeatherForecast" where
  "sample_day d = \<lparr>Date = d, Temperature_Minimum = celsius 14, Temperature_Maximum = celsius 25,
     Day_Icon = Fin 3, Day_IconPhrase = ''Partly sunny'', Day_PrecipitationProbability = Fin 20,
     Day_Wind_Speed = \<lparr>Value = Fin 13, Unit = ''km/h''\<rparr>,
     Night_Icon = Fin 35, Night_IconPhrase = ''Partly cloudy'',
     Night_PrecipitationProbability = Fin 10\<rparr>"

definition sample_conditions :: "string option \<Rightarrow> AccuWeatherCurrentConditions" where
  "sample_conditions p = \<lparr>LocalObservationDateTime = ''2025-11-05T09:00:00+03:00'',
     Temperature_Metric = celsius 21, Temperature_Imperial = \<lparr>Value = Fin 70, Unit = ''F''\<rparr>,
     WeatherText = ''Cloudy'', WeatherIcon = Fin 7, RelativeHumidity = Fin 64,
     Wind_Speed_Metric = \<lparr>Value = Fin 9, Unit = ''km/h''\<rparr>,
     Wind_Direction_Degrees = Fin 90, Wind_Direction_Localized = ''E'',
     PrecipitationType = p, HasPrecipitation = False\<rparr>"

definition five_days :: "jsval list" where
  "five_days = map (js_forecast \<circ> sample_day)
     [''2025-11-05T07:00:00+03:00'', ''2025-11-06T07:00:00+03:00'', ''2025-11-07T07:00:00+03:00'',
      ''2025-11-08T07:00:00+03:00'', ''2025-11-09T07:00:00+03:00'']"

text \<open>
  A provider that answers the geoposition search after 120 ms, the current conditions
  after 200 ms and the forecast after 300 ms with the given body, and the location
  details as given.
\<close>

definition sample_provider :: "jsval \<Rightarrow> net_reply \<Rightarrow> provider" where
  "sample_provider forecast_body details u =
     (case u of Url b ep k \<Rightarrow>
        (case ep of
           GeopositionSearch lat lon \<Rightarrow> Responds 120 (json_response (js_location nairobi))
         | CurrentConditionsOf key \<Rightarrow>
             Responds 200 (json_response (Arr [js_conditions (sample_conditions None)]))
         | DailyForecastOf n key \<Rightarrow> Responds 300 (json_response forecast_body)
         | LocationByKey key \<Rightarrow> details))"

text \<open>A provider that gives every URL the same reply.\<close>

definition always :: "net_reply \<Rightarrow> provider" where
  "always reply u = reply"

definition daily_forecasts :: "jsval list \<Rightarrow> jsval" where
  "daily_forecasts ds = Obj [(''DailyForecasts'', Arr ds)]"

definition details_ok :: net_reply where
  "details_ok = Responds 150 (json_response (js_location nairobi))"

section \<open>Values, responses and the network\<close>

lemma range_check_iff:
  "(\<not> is_number v \<or> isNaN v \<or> lt_num v lo \<or> gt_num v hi) = (\<not> finite_in lo hi v)"
proof (cases v)
  case (Num x)
  then show ?thesis
    by (cases x) (auto simp: finite_in_def js_gt_def)
qed (simp_all add: finite_in_def)

lemma days_check_iff:
  "v \<noteq> Num NaN \<Longrightarrow> (\<not> is_number v \<or> lt_num v lo \<or> gt_num v hi) = (\<not> finite_in lo hi v)"
proof (cases v)
  case (Num x)
  assume "v \<noteq> Num NaN"
  with Num show ?thesis
    by (cases x) (auto simp: finite_in_def js_gt_def)
qed (simp_all add: finite_in_def)

lemma finite_in_days:
  "finite_in lo hi v \<Longrightarrow> v \<noteq> Undefined \<and> v \<noteq> Num NaN \<and> default_days v = v"
  by (auto simp: finite_in_def default_days_def split: jsval.splits jsnum.splits)

lemma days_accepted:
  "finite_in 1 15 days \<Longrightarrow> \<not> (\<not> is_number days \<or> lt_num days 1 \<or> gt_num days 15)"
  using days_check_iff [of days 1 15] finite_in_days [of 1 15 days] by blast

lemma finite_in_of_nat: "1 \<le> n \<Longrightarrow> n \<le> 15 \<Longrightarrow> finite_in 1 15 (Num (Fin (of_nat n)))"
  by (simp add: finite_in_def)

lemma default_days_Num: "default_days (Num x) = Num x"
  by (simp add: default_days_def)

lemma get_prop_error: "get_prop v k = Inl e \<Longrightarrow> e = TypeError"
  by (cases v) simp_all

lemma get_prop_Arr_truthy: "get_prop v k = Inr (Arr xs) \<Longrightarrow> truthy v"
  by (cases v) simp_all

lemma get_path_error: "get_path v ks = Inl e \<Longrightarrow> e = TypeError"
  by (induction ks arbitrary: v) (auto split: sum.splits dest: get_prop_error)

lemma trunc_of_nat: "trunc (of_nat n) = int n"
  by (simp add: trunc_def)

lemma slice0_of_nat: "slice0 xs (Fin (of_nat n)) = take n xs"
  by (cases "n \<le> length xs") (simp_all add: slice0_def trunc_of_nat min_def)

lemma fetch_abortable_cases:
  obtains (timeout) t where "fetch_abortable net u ms = (t, Inl AbortError)"
  | (failure) t where "fetch_abortable net u ms = (t, Inl NetworkError)"
  | (response) d r where "fetch_abortable net u ms = (d, Inr r)" "net u = Responds d r" "d < ms"
proof (cases "net u")
  case (Responds d r)
  then show ?thesis
    using timeout response by (cases "d < ms") (simp_all add: fetch_abortable_def)
next
  case (Fails d)
  then show ?thesis
    using timeout failure by (cases "d < ms") (simp_all add: fetch_abortable_def)
next
  case Hangs
  then show ?thesis
    using timeout by (simp add: fetch_abortable_def)
qed

lemma fetch_abortable_Responds:
  "net u = Responds d r \<Longrightarrow> d < ms \<Longrightarrow> fetch_abortable net u ms = (d, Inr r)"
  by (simp add: fetch_abortable_def)

lemma fetch_abortable_bounded: "fst (fetch_abortable net u ms) \<le> ms"
  by (cases rule: fetch_abortable_cases [of net u ms])
     (auto simp: fetch_abortable_def split: net_reply.splits if_splits)

lemma fetch_abortable_late:
  "net u = Hangs \<or> (\<exists>d r. net u = Responds d r \<and> ms \<le> d) \<or> (\<exists>d. net u = Fails d \<and> ms \<le> d)
    \<Longrightarrow> fetch_abortable net u ms = (ms, Inl AbortError)"
  by (auto simp: fetch_abortable_def)

lemma new_client_simps:
  "apiKey (new_client k) = k" "baseUrl (new_client k) = ''https://dataservice.accuweather.com''"
  by (simp_all add: new_client_def)

section \<open>The three methods that run under a timer\<close>

lemma getLocationKey_responds:
  assumes "finite_in (- 90) 90 lat" "finite_in (- 180) 180 lon"
    and "net (Url (baseUrl c) (GeopositionSearch lat lon) (apiKey c)) = Responds d resp"
    and "d < 30000"
  shows "getLocationKey c net lat lon =
    Run d (read_location_key resp)
      [Call (Url (baseUrl c) (GeopositionSearch lat lon) (apiKey c)) (Some 30000)]"
  unfolding getLocationKey_def range_check_iff
  using assms by (simp add: fetch_abortable_Responds)

lemma getCurrentConditions_responds:
  assumes "truthy key" "is_string key"
    and "net (Url (baseUrl c) (CurrentConditionsOf key) (apiKey c)) = Responds d resp"
    and "d < 30000"
  shows "getCurrentConditions c net key =
    Run d (read_current_conditions resp)
      [Call (Url (baseUrl c) (CurrentConditionsOf key) (apiKey c)) (Some 30000)]"
  unfolding getCurrentConditions_def
  using assms by (simp add: fetch_abortable_Responds)

lemma getForecast_responds:
  assumes "truthy key" "is_string key" "finite_in 1 15 days"
    and "net (Url (baseUrl c) (DailyForecastOf days key) (apiKey c)) = Responds d resp"
    and "d < 30000"
  shows "getForecast c net key days =
    Run d (read_forecast days resp)
      [Call (Url (baseUrl c) (DailyForecastOf days key) (apiKey c)) (Some 30000)]"
proof -
  have dd: "default_days days = days"
    using assms(3) by (simp add: finite_in_days)
  show ?thesis
    unfolding getForecast_def Let_def dd
    using assms days_accepted [OF assms(3)] by (simp add: fetch_abortable_Responds)
qed

lemma read_not_ok:
  assumes "\<not> ok resp"
  shows "read_location_key resp = Inl (api_error resp)"
    and "read_current_conditions resp = Inl (api_error resp)"
    and "read_forecast days resp = Inl (api_error resp)"
  using assms
  by (simp_all add: read_location_key_def read_current_conditions_def read_forecast_def)

text \<open>
  The three methods that pass a signal to \<^verbatim>\<open>fetch\<close> settle within 30 seconds, and fail with
  the timeout error when the provider has not answered by then.
\<close>

lemma timed_methods_bounded:
  "elapsed (getLocationKey c net lat lon) \<le> 30000"
  "elapsed (getCurrentConditions c net key) \<le> 30000"
  "elapsed (getForecast c net key days) \<le> 30000"
proof -
  show "elapsed (getLocationKey c net lat lon) \<le> 30000"
    using fetch_abortable_bounded [of net "Url (baseUrl c) (GeopositionSearch lat lon) (apiKey c)" 30000]
    by (auto simp: getLocationKey_def Let_def split: prod.splits sum.splits fetch_failure.splits)
  show "elapsed (getCurrentConditions c net key) \<le> 30000"
    using fetch_abortable_bounded [of net "Url (baseUrl c) (CurrentConditionsOf key) (apiKey c)" 30000]
    by (auto simp: getCurrentConditions_def Let_def split: prod.splits sum.splits fetch_failure.splits)
  show "elapsed (getForecast c net key days) \<le> 30000"
    using fetch_abortable_bounded
      [of net "Url (baseUrl c) (DailyForecastOf (default_days days) key) (apiKey c)" 30000]
    by (auto simp: getForecast_def Let_def split: prod.splits sum.splits fetch_failure.splits)
qed

lemma timed_methods_time_out:
  assumes "\<forall>u. net u = Hangs \<or> (\<exists>d r. net u = Responds d r \<and> 30000 \<le> d)"
  shows "finite_in (- 90) 90 lat \<Longrightarrow> finite_in (- 180) 180 lon
      \<Longrightarrow> outcome (getLocationKey c net lat lon) = Inl RequestTimeout"
    and "truthy key \<Longrightarrow> is_string key
      \<Longrightarrow> outcome (getCurrentConditions c net key) = Inl RequestTimeout"
    and "truthy key \<Longrightarrow> is_string key \<Longrightarrow> finite_in 1 15 days
      \<Longrightarrow> outcome (getForecast c net key days) = Inl RequestTimeout"
proof -
  have late: "fetch_abortable net u 30000 = (30000, Inl AbortError)" for u
    using assms by (intro fetch_abortable_late) blast
  show "outcome (getLocationKey c net lat lon) = Inl RequestTimeout"
    if "finite_in (- 90) 90 lat" "finite_in (- 180) 180 lon"
    unfolding getLocationKey_def range_check_iff using that by (simp add: late)
  show "outcome (getCurrentConditions c net key) = Inl RequestTimeout"
    if "truthy key" "is_string key"
    unfolding getCurrentConditions_def using that by (simp add: late)
  show "outcome (getForecast c net key days) = Inl RequestTimeout"
    if "truthy key" "is_string key" "finite_in 1 15 days"
    unfolding getForecast_def Let_def using that days_accepted [OF that(3)] finite_in_days [OF that(3)]
    by (simp add: late)
qed

subsection \<open>Coordinates\<close>

text \<open>
  Claim C5. Whenever the latitude is not a finite number in [-90, 90] or the longitude
  is not a finite number in [-180, 180] (a value that is no number, NaN and the
  infinities included), \<open>getLocationKey\<close> fails with an InvalidArgument error and
  issues no network call.
\<close>

theorem getLocationKey_rejects_bad_coordinates:
  assumes "\<not> finite_in (- 90) 90 lat \<or> \<not> finite_in (- 180) 180 lon"
  shows "(\<exists>e. outcome (getLocationKey c net lat lon) = Inl e \<and> kind_of e = InvalidArgument)
       \<and> calls (getLocationKey c net lat lon) = []"
  unfolding getLocationKey_def range_check_iff using assms by auto

theorem getLocationKey_rejects_bad_coordinates_witness:
  "\<not> finite_in (- 90) 90 (Num PosInf)
   \<and> (\<exists>e. outcome (getLocationKey (new_client ''k'') (always Hangs) (Num PosInf) NAIROBI_LON) = Inl e
          \<and> kind_of e = InvalidArgument)
   \<and> calls (getLocationKey (new_client ''k'') (always Hangs) (Num PosInf) NAIROBI_LON) = []
   \<and> \<not> finite_in (- 180) 180 (Num NaN)
   \<and> (\<exists>e. outcome (getLocationKey (new_client ''k'') (always Hangs) NAIROBI_LAT (Num NaN)) = Inl e
          \<and> kind_of e = InvalidArgument)
   \<and> calls (getLocationKey (new_client ''k'') (always Hangs) NAIROBI_LAT (Num NaN)) = []"
proof -
  have lat: "\<not> finite_in (- 90) 90 (Num PosInf)" and lon: "\<not> finite_in (- 180) 180 (Num NaN)"
    by (simp_all add: finite_in_def)
  from lat have "\<not> finite_in (- 90) 90 (Num PosInf) \<or> \<not> finite_in (- 180) 180 NAIROBI_LON" ..
  note one = getLocationKey_rejects_bad_coordinates
    [OF this, of "new_client ''k''" "always Hangs"]
  from lon have "\<not> finite_in (- 90) 90 NAIROBI_LAT \<or> \<not> finite_in (- 180) 180 (Num NaN)" ..
  note two = getLocationKey_rejects_bad_coordinates
    [OF this, of "new_client ''k''" "always Hangs"]
  from lat lon one two show ?thesis
    by blast
qed

subsection \<open>The day count\<close>

lemma getForecast_calls_when_accepted:
  assumes "truthy key" "is_string key" "finite_in 1 15 days"
  shows "calls (getForecast c net key days) =
      [Call (Url (baseUrl c) (DailyForecastOf days key) (apiKey c)) (Some 30000)]"
proof -
  have dd: "default_days days = days"
    using assms(3) by (simp add: finite_in_days)
  show ?thesis
    unfolding getForecast_def Let_def dd
    using assms days_accepted [OF assms(3)]
    by (cases rule: fetch_abortable_cases
          [of net "Url (baseUrl c) (DailyForecastOf days key) (apiKey c)" 30000]) simp_all
qed

lemma read_forecast_error_kind:
  "read_forecast days resp = Inl e \<Longrightarrow> kind_of e \<noteq> InvalidArgument"
  by (auto simp: read_forecast_def api_error_def split: if_splits option.splits sum.splits
      dest: get_prop_error)

lemma getForecast_error_kind_when_accepted:
  assumes "truthy key" "is_string key" "finite_in 1 15 days"
    and "outcome (getForecast c net key days) = Inl e"
  shows "kind_of e \<noteq> InvalidArgument"
proof -
  have dd: "default_days days = days"
    using assms(3) by (simp add: finite_in_days)
  show ?thesis
    using assms days_accepted [OF assms(3)]
    unfolding getForecast_def Let_def dd
    by (cases rule: fetch_abortable_cases
          [of net "Url (baseUrl c) (DailyForecastOf days key) (apiKey c)" 30000])
       (auto dest: read_forecast_error_kind)
qed

lemma getForecast_rejects:
  assumes "days \<noteq> Undefined" "days \<noteq> Num NaN" "\<not> finite_in 1 15 days"
  shows "(\<exists>e. outcome (getForecast c net key days) = Inl e \<and> kind_of e = InvalidArgument)
       \<and> calls (getForecast c net key days) = []"
proof -
  have dd: "default_days days = days"
    using assms(1) by (simp add: default_days_def)
  have "\<not> is_number days \<or> lt_num days 1 \<or> gt_num days 15"
    using days_check_iff [OF assms(2), of 1 15] assms(3) by blast
  then show ?thesis
    unfolding getForecast_def Let_def dd by auto
qed

lemma length_five_days: "length five_days = 5"
  by (simp add: five_days_def)

lemma read_forecast_ok:
  assumes "ok resp" "bodyJson resp = Some data" "get_prop data ''DailyForecasts'' = Inr (Arr ds)"
  shows "read_forecast days resp = Inr (slice0 ds (num_of days))"
  using assms get_prop_Arr_truthy [OF assms(3)] by (simp add: read_forecast_def)

text \<open>
  Claim C1 as stated fails: 2.5 is not a whole number, yet \<open>getForecast\<close> accepts it,
  sends the request and returns two entries.
\<close>

theorem getForecast_fractional_days_counterexample:
  "\<not> is_integer (Num (Fin (5 / 2)))
   \<and> getForecast (new_client ''k'')
      (always (Responds 300 (json_response (daily_forecasts five_days))))
      (Str ''224758'') (Num (Fin (5 / 2)))
     = Run 300 (Inr (take 2 five_days))
        [Call (Url ''https://dataservice.accuweather.com''
                 (DailyForecastOf (Num (Fin (5 / 2))) (Str ''224758'')) ''k'') (Some 30000)]"
proof -
  have f: "finite_in 1 15 (Num (Fin (5 / 2)))"
    by (simp add: finite_in_def)
  have fl: "\<lfloor>5 / 2 :: rat\<rfloor> = 2"
    by (simp add: floor_eq_iff)
  have t: "trunc (5 / 2) = 2"
    by (simp add: trunc_def fl)
  have "read_forecast (Num (Fin (5 / 2))) (json_response (daily_forecasts five_days))
      = Inr (take 2 five_days)"
    by (simp add: read_forecast_def json_response_def ok_def daily_forecasts_def slice0_def t
        length_five_days)
  moreover have "\<not> is_integer (Num (Fin (5 / 2)))"
    by (simp add: is_integer_def fl)
  ultimately show ?thesis
    using getForecast_responds [of "Str ''224758''" "Num (Fin (5 / 2))"
        "always (Responds 300 (json_response (daily_forecasts five_days)))" "new_client ''k''" 300
        "json_response (daily_forecasts five_days)", OF _ _ f]
    by (simp add: always_def new_client_def)
qed

text \<open>
  Claim C1, amended. For a day count that is given and is not NaN: if it is not a
  finite number between 1 and 15 (no number at all, an infinity, below 1 or above 15),
  \<open>getForecast\<close> fails with an InvalidArgument error and issues no network call; if it
  is a finite number between 1 and 15, whole or not, and the location key is valid, the
  validation passes: the forecast request is issued and no InvalidArgument error is
  raised.
\<close>

theorem getForecast_days_validation:
  assumes "days \<noteq> Undefined" "days \<noteq> Num NaN"
  shows "(\<not> finite_in 1 15 days \<longrightarrow>
            (\<exists>e. outcome (getForecast c net key days) = Inl e \<and> kind_of e = InvalidArgument)
            \<and> calls (getForecast c net key days) = [])
       \<and> (finite_in 1 15 days \<and> truthy key \<and> is_string key \<longrightarrow>
            calls (getForecast c net key days) =
              [Call (Url (baseUrl c) (DailyForecastOf days key) (apiKey c)) (Some 30000)]
            \<and> (\<forall>e. outcome (getForecast c net key days) = Inl e \<longrightarrow> kind_of e \<noteq> InvalidArgument))"
  using getForecast_rejects [OF assms] getForecast_calls_when_accepted
    getForecast_error_kind_when_accepted
  by blast

theorem getForecast_days_validation_witness:
  "\<not> finite_in 1 15 (Num (Fin 16))
   \<and> (\<exists>e. outcome (getForecast (new_client ''k'') (always Hangs) (Str ''224758'') (Num (Fin 16))) = Inl e
          \<and> kind_of e = InvalidArgument)
   \<and> calls (getForecast (new_client ''k'') (always Hangs) (Str ''224758'') (Num (Fin 16))) = []
   \<and> finite_in 1 15 (Num (Fin (5 / 2)))
   \<and> calls (getForecast (new_client ''k'') (always Hangs) (Str ''224758'') (Num (Fin (5 / 2))))
     = [Call (Url ''https://dataservice.accuweather.com''
                (DailyForecastOf (Num (Fin (5 / 2))) (Str ''224758'')) ''k'') (Some 30000)]"
proof -
  have out: "\<not> finite_in 1 15 (Num (Fin 16))" and inside: "finite_in 1 15 (Num (Fin (5 / 2)))"
    by (simp_all add: finite_in_def)
  have one: "(\<exists>e. outcome (getForecast (new_client ''k'') (always Hangs) (Str ''224758'') (Num (Fin 16))) = Inl e
          \<and> kind_of e = InvalidArgument)
     \<and> calls (getForecast (new_client ''k'') (always Hangs) (Str ''224758'') (Num (Fin 16))) = []"
    using getForecast_days_validation [of "Num (Fin 16)" "new_client ''k''" "always Hangs" "Str ''224758''"]
      out by simp
  have two: "calls (getForecast (new_client ''k'') (always Hangs) (Str ''224758'') (Num (Fin (5 / 2))))
     = [Call (Url ''https://dataservice.accuweather.com''
                (DailyForecastOf (Num (Fin (5 / 2))) (Str ''224758'')) ''k'') (Some 30000)]"
    using getForecast_days_validation [of "Num (Fin (5 / 2))" "new_client ''k''" "always Hangs" "Str ''224758''"]
      inside by (simp add: new_client_simps)
  from out inside one two show ?thesis
    by blast
qed

text \<open>
  NaN as a day count: both comparisons of the guard are false, so the request goes out
  with NaN in the URL, and \<^verbatim>\<open>slice(0, NaN)\<close> of a successful response is empty.
\<close>

lemma getForecast_accepts_NaN:
  assumes "truthy key" "is_string key"
    and "net (Url (baseUrl c) (DailyForecastOf (Num NaN) key) (apiKey c)) = Responds d resp"
    and "d < 30000" "ok resp" "bodyJson resp = Some data"
    and "get_prop data ''DailyForecasts'' = Inr (Arr ds)"
  shows "getForecast c net key (Num NaN) =
     Run d (Inr []) [Call (Url (baseUrl c) (DailyForecastOf (Num NaN) key) (apiKey c)) (Some 30000)]"
  using assms read_forecast_ok [OF assms(5,6,7), of "Num NaN"]
  by (simp add: getForecast_def Let_def default_days_Num js_gt_def fetch_abortable_Responds slice0_def)

subsection \<open>Truncation of the forecast\<close>

lemma read_forecast_InrD:
  assumes "read_forecast days resp = Inr xs"
  shows "\<exists>data ds. ok resp \<and> bodyJson resp = Some data
           \<and> get_prop data ''DailyForecasts'' = Inr (Arr ds) \<and> xs = slice0 ds (num_of days)"
proof -
  from assms obtain data df where a: "ok resp" "bodyJson resp = Some data"
      "get_prop data ''DailyForecasts'' = Inr df" "isArray df" "xs = slice0 (elements df) (num_of days)"
    by (auto simp: read_forecast_def split: if_splits option.splits sum.splits)
  from a(4) obtain ds where "df = Arr ds" by (cases df) simp_all
  with a show ?thesis by auto
qed

lemma getForecast_InrD:
  assumes "outcome (getForecast c net key days) = Inr xs"
  shows "\<exists>d resp. net (Url (baseUrl c) (DailyForecastOf (default_days days) key) (apiKey c)) = Responds d resp
           \<and> d < 30000 \<and> read_forecast (default_days days) resp = Inr xs"
  using assms unfolding getForecast_def Let_def
  by (cases rule: fetch_abortable_cases
        [of net "Url (baseUrl c) (DailyForecastOf (default_days days) key) (apiKey c)" 30000])
     (auto split: if_splits)

lemma getForecast_at_most:
  assumes "outcome (getForecast c net key (Num (Fin (of_nat n)))) = Inr xs"
  shows "length xs \<le> n"
proof -
  from getForecast_InrD [OF assms] obtain d resp where
    "read_forecast (Num (Fin (of_nat n))) resp = Inr xs"
    by (auto simp: default_days_Num)
  from read_forecast_InrD [OF this] obtain ds where "xs = slice0 ds (Fin (of_nat n))"
    by auto
  then show ?thesis by (simp add: slice0_of_nat)
qed

text \<open>
  Claim C4. For a valid location key, a whole day count \<open>n\<close> from 1 to 15 and a
  successful response whose \<^verbatim>\<open>DailyForecasts\<close> holds more than \<open>n\<close> entries, \<open>getForecast\<close>
  returns exactly the first \<open>n\<close> of them; and whatever the provider answers, a
  successful \<open>getForecast\<close> never returns more than \<open>n\<close> entries.
\<close>

theorem getForecast_truncates_excess:
  assumes "truthy key" "is_string key" "1 \<le> n" "n \<le> 15"
    and "net (Url (baseUrl c) (DailyForecastOf (Num (Fin (of_nat n))) key) (apiKey c)) = Responds d resp"
    and "d < 30000" "ok resp" "bodyJson resp = Some data"
    and "get_prop data ''DailyForecasts'' = Inr (Arr ds)" "n < length ds"
  shows "outcome (getForecast c net key (Num (Fin (of_nat n)))) = Inr (take n ds)
       \<and> length (take n ds) = n
       \<and> (\<forall>net' xs. outcome (getForecast c net' key (Num (Fin (of_nat n)))) = Inr xs \<longrightarrow> length xs \<le> n)"
proof -
  have "getForecast c net key (Num (Fin (of_nat n))) =
      Run d (read_forecast (Num (Fin (of_nat n))) resp)
        [Call (Url (baseUrl c) (DailyForecastOf (Num (Fin (of_nat n))) key) (apiKey c)) (Some 30000)]"
    using assms(1,2) finite_in_of_nat [OF assms(3,4)] assms(5,6) by (rule getForecast_responds)
  moreover have "read_forecast (Num (Fin (of_nat n))) resp = Inr (take n ds)"
    using read_forecast_ok [OF assms(7,8,9)] by (simp add: slice0_of_nat)
  moreover have "length (take n ds) = n"
    using assms(10) by simp
  ultimately show ?thesis
    using getForecast_at_most by auto
qed

theorem getForecast_truncates_excess_witness:
  "outcome (getForecast (new_client ''k'')
      (always (Responds 300 (json_response (daily_forecasts five_days))))
      (Str ''224758'') (Num (Fin 3))) = Inr (take 3 five_days)
   \<and> length (take 3 five_days) = 3"
  using getForecast_truncates_excess [of "Str ''224758''" 3 "always (Responds 300 (json_response (daily_forecasts five_days)))"
      "new_client ''k''" 300 "json_response (daily_forecasts five_days)" "daily_forecasts five_days" five_days]
  by (simp add: always_def json_response_def ok_def daily_forecasts_def length_five_days)

subsection \<open>The conditions array\<close>

lemma read_current_conditions_cases:
  assumes "ok resp" "bodyJson resp = Some data"
  shows "read_current_conditions resp =
     (case data of Arr (x # xs) \<Rightarrow> Inr x | _ \<Rightarrow> Inl MissingCurrentConditions)"
  using assms
  by (auto simp: read_current_conditions_def js_index_def split: jsval.splits list.splits)

text \<open>
  Claim C6. For a valid location key and a response with a success status that arrives
  in time: if the body is anything but a non-empty array (null, another value, the empty
  array), \<open>getCurrentConditions\<close> fails with the UpstreamProtocolError
  \<open>MissingCurrentConditions\<close>; if it is a non-empty array, the result is its first
  element.
\<close>

theorem getCurrentConditions_first_or_protocol_error:
  assumes "truthy key" "is_string key"
    and "net (Url (baseUrl c) (CurrentConditionsOf key) (apiKey c)) = Responds d resp"
    and "d < 30000" "ok resp" "bodyJson resp = Some data"
  shows "((\<forall>x xs. data \<noteq> Arr (x # xs)) \<longrightarrow>
            outcome (getCurrentConditions c net key) = Inl MissingCurrentConditions
            \<and> kind_of MissingCurrentConditions = UpstreamProtocolError)
       \<and> (\<forall>x xs. data = Arr (x # xs) \<longrightarrow> outcome (getCurrentConditions c net key) = Inr x)"
proof -
  have "outcome (getCurrentConditions c net key) =
      (case data of Arr (x # xs) \<Rightarrow> Inr x | _ \<Rightarrow> Inl MissingCurrentConditions)"
    using getCurrentConditions_responds [where net = net, OF assms(1-4)]
      read_current_conditions_cases [OF assms(5,6)]
    by simp
  then show ?thesis
    by (auto split: jsval.splits list.splits)
qed

theorem getCurrentConditions_first_or_protocol_error_witness:
  "outcome (getCurrentConditions (new_client ''k'')
      (always (Responds 200 (json_response (Arr [])))) (Str ''224758''))
     = Inl MissingCurrentConditions
   \<and> outcome (getCurrentConditions (new_client ''k'')
      (always (Responds 200 (json_response (Arr [Str ''first'', Str ''second''])))) (Str ''224758''))
     = Inr (Str ''first'')"
  using getCurrentConditions_first_or_protocol_error [of "Str ''224758''"
      "always (Responds 200 (json_response (Arr [])))" "new_client ''k''" 200
      "json_response (Arr [])" "Arr []"]
    getCurrentConditions_first_or_protocol_error [of "Str ''224758''"
      "always (Responds 200 (json_response (Arr [Str ''first'', Str ''second''])))" "new_client ''k''" 200
      "json_response (Arr [Str ''first'', Str ''second''])" "Arr [Str ''first'', Str ''second'']"]
  by (simp add: always_def json_response_def ok_def)

section \<open>The composed fetch\<close>

lemma outcome_promise_all_Inr:
  "outcome p = Inr a \<Longrightarrow> outcome q = Inr b \<Longrightarrow> outcome (promise_all p q) = Inr (a, b)"
  by (simp add: promise_all_def)

lemma promise_all_InrD:
  "outcome (promise_all p q) = Inr (a, b) \<Longrightarrow> outcome p = Inr a \<and> outcome q = Inr b"
  by (auto simp: promise_all_def split: sum.splits if_splits)

text \<open>How \<open>getWeatherForecast\<close> goes on once the first three calls have succeeded.\<close>

lemma getWeatherForecast_after_three:
  assumes "outcome (getLocationKey c net lat lon) = Inr key"
    and "outcome (getCurrentConditions c net key) = Inr cur"
    and "outcome (getForecast c net key (default_days days)) = Inr fc"
  shows "map_option outcome (getWeatherForecast c net lat lon days) =
     (case net (Url (baseUrl c) (LocationByKey key) (apiKey c)) of
        Hangs \<Rightarrow> None
      | Fails d \<Rightarrow> Some (Inl FetchError)
      | Responds d resp \<Rightarrow>
          if \<not> ok resp then Some (Inl (LocationDetailsFailed (status resp)))
          else (case bodyJson resp of
                  None \<Rightarrow> Some (Inl FetchError)
                | Some loc \<Rightarrow> Some (Inr \<lparr>location = loc, current = cur, forecast = fc\<rparr>)))"
proof -
  obtain t1 cs1 where k: "getLocationKey c net lat lon = Run t1 (Inr key) cs1"
    using assms(1) by (cases "getLocationKey c net lat lon") simp
  obtain t2 cs2 where p: "promise_all (getCurrentConditions c net key)
      (getForecast c net key (default_days days)) = Run t2 (Inr (cur, fc)) cs2"
    using outcome_promise_all_Inr [OF assms(2,3)]
    by (cases "promise_all (getCurrentConditions c net key)
          (getForecast c net key (default_days days))") simp
  show ?thesis
    by (simp add: getWeatherForecast_def Let_def k p fetch_plain_def
        split: net_reply.splits option.splits)
qed

text \<open>And what a successful \<open>getWeatherForecast\<close> has gone through.\<close>

lemma getWeatherForecast_InrD:
  assumes "getWeatherForecast c net lat lon days = Some r" "outcome r = Inr b"
  shows "\<exists>key. outcome (getLocationKey c net lat lon) = Inr key
           \<and> outcome (getCurrentConditions c net key) = Inr (current b)
           \<and> outcome (getForecast c net key (default_days days)) = Inr (forecast b)"
proof (cases "getLocationKey c net lat lon")
  case k: (Run t1 o1 cs1)
  show ?thesis
  proof (cases o1)
    case (Inl e)
    with k assms show ?thesis
      by (auto simp: getWeatherForecast_def Let_def)
  next
    case (Inr key)
    note key = k [unfolded Inr]
    show ?thesis
    proof (cases "promise_all (getCurrentConditions c net key)
        (getForecast c net key (default_days days))")
      case p: (Run t2 o2 cs2)
      show ?thesis
      proof (cases o2)
        case (Inl e)
        with key p assms show ?thesis
          by (auto simp: getWeatherForecast_def Let_def)
      next
        case (Inr pair)
        obtain cur fc where pair: "pair = (cur, fc)" by (cases pair)
        have "outcome (promise_all (getCurrentConditions c net key)
            (getForecast c net key (default_days days))) = Inr (cur, fc)"
          using p Inr pair by simp
        from promise_all_InrD [OF this]
        have three: "outcome (getCurrentConditions c net key) = Inr cur"
          "outcome (getForecast c net key (default_days days)) = Inr fc"
          by simp_all
        have "outcome (getLocationKey c net lat lon) = Inr key"
          using key by simp
        from getWeatherForecast_after_three [OF this three, of ] assms
        have "current b = cur \<and> forecast b = fc"
          by (auto split: net_reply.splits if_splits option.splits)
        with three \<open>outcome (getLocationKey c net lat lon) = Inr key\<close> show ?thesis
          by auto
      qed
    qed
  qed
qed

subsection \<open>Runs against the sample provider\<close>

lemma nairobi_in_range:
  "finite_in (- 90) 90 NAIROBI_LAT" "finite_in (- 180) 180 NAIROBI_LON"
  by (simp_all add: finite_in_def NAIROBI_LAT_def NAIROBI_LON_def)

lemma sample_getLocationKey:
  "getLocationKey (new_client ''k'') (sample_provider fb det) NAIROBI_LAT NAIROBI_LON =
     Run 120 (Inr (Str ''224758''))
       [Call (Url ''https://dataservice.accuweather.com''
                (GeopositionSearch NAIROBI_LAT NAIROBI_LON) ''k'') (Some 30000)]"
proof -
  have "read_location_key (json_response (js_location nairobi)) = Inr (Str ''224758'')"
    by (simp add: read_location_key_def json_response_def ok_def js_location_def nairobi_def)
  then show ?thesis
    using getLocationKey_responds [of NAIROBI_LAT NAIROBI_LON "sample_provider fb det"
        "new_client ''k''" 120 "json_response (js_location nairobi)", OF nairobi_in_range]
    by (simp add: sample_provider_def new_client_def)
qed

lemma sample_getCurrentConditions:
  "getCurrentConditions (new_client ''k'') (sample_provider fb det) (Str ''224758'') =
     Run 200 (Inr (js_conditions (sample_conditions None)))
       [Call (Url ''https://dataservice.accuweather.com''
                (CurrentConditionsOf (Str ''224758'')) ''k'') (Some 30000)]"
proof -
  have "read_current_conditions (json_response (Arr [js_conditions (sample_conditions None)]))
      = Inr (js_conditions (sample_conditions None))"
    by (simp add: read_current_conditions_cases [of _ "Arr [js_conditions (sample_conditions None)]"]
        json_response_def ok_def)
  then show ?thesis
    using getCurrentConditions_responds [of "Str ''224758''" "sample_provider fb det"
        "new_client ''k''" 200 "json_response (Arr [js_conditions (sample_conditions None)])"]
    by (simp add: sample_provider_def new_client_def)
qed

lemma sample_getForecast:
  "getForecast (new_client ''k'') (sample_provider (daily_forecasts ds) det) (Str ''224758'') (Num (Fin 5)) =
     Run 300 (Inr (take 5 ds))
       [Call (Url ''https://dataservice.accuweather.com''
                (DailyForecastOf (Num (Fin 5)) (Str ''224758'')) ''k'') (Some 30000)]"
proof -
  have "read_forecast (Num (Fin 5)) (json_response (daily_forecasts ds)) = Inr (take 5 ds)"
    using read_forecast_ok [of "json_response (daily_forecasts ds)" "daily_forecasts ds" ds "Num (Fin 5)"]
      slice0_of_nat [of ds 5]
    by (simp add: json_response_def ok_def daily_forecasts_def)
  moreover have "finite_in 1 15 (Num (Fin 5))"
    by (simp add: finite_in_def)
  ultimately show ?thesis
    using getForecast_responds [of "Str ''224758''" "Num (Fin 5)" "sample_provider (daily_forecasts ds) det"
        "new_client ''k''" 300 "json_response (daily_forecasts ds)"]
    by (simp add: sample_provider_def new_client_def)
qed

lemma sample_promise_all:
  "promise_all (getCurrentConditions (new_client ''k'') (sample_provider (daily_forecasts ds) det) (Str ''224758''))
      (getForecast (new_client ''k'') (sample_provider (daily_forecasts ds) det) (Str ''224758'') (Num (Fin 5))) =
     Run 300 (Inr (js_conditions (sample_conditions None), take 5 ds))
       [Call (Url ''https://dataservice.accuweather.com''
                (CurrentConditionsOf (Str ''224758'')) ''k'') (Some 30000),
        Call (Url ''https://dataservice.accuweather.com''
                (DailyForecastOf (Num (Fin 5)) (Str ''224758'')) ''k'') (Some 30000)]"
  by (simp add: sample_getCurrentConditions sample_getForecast promise_all_def)

lemma sample_outcome:
  "map_option outcome (getWeatherForecast (new_client ''k'') (sample_provider (daily_forecasts ds) det)
      NAIROBI_LAT NAIROBI_LON (Num (Fin 5))) =
     (case det of
        Hangs \<Rightarrow> None
      | Fails d \<Rightarrow> Some (Inl FetchError)
      | Responds d resp \<Rightarrow>
          if \<not> ok resp then Some (Inl (LocationDetailsFailed (status resp)))
          else (case bodyJson resp of
                  None \<Rightarrow> Some (Inl FetchError)
                | Some loc \<Rightarrow> Some (Inr \<lparr>location = loc,
                    current = js_conditions (sample_conditions None), forecast = take 5 ds\<rparr>)))"
  using getWeatherForecast_after_three [of "new_client ''k''" "sample_provider (daily_forecasts ds) det"
      NAIROBI_LAT NAIROBI_LON "Str ''224758''" "js_conditions (sample_conditions None)"
      "Num (Fin 5)" "take 5 ds"]
  by (simp add: sample_getLocationKey sample_getCurrentConditions sample_getForecast
      default_days_Num sample_provider_def new_client_simps)

subsection \<open>The location-details call\<close>

text \<open>
  Claim C2, evaluated where it fails. The provider answers the first three calls within
  300 ms and the location-details call after 60 seconds: \<open>getWeatherForecast\<close> waits the
  60 seconds and returns the bundle, with no timeout error; its fourth call is the only
  one issued without an abort timer. When the details call never answers,
  \<open>getWeatherForecast\<close> never settles.
\<close>

theorem getWeatherForecast_details_fetch_unbounded:
  "getWeatherForecast (new_client ''k'')
      (sample_provider (daily_forecasts five_days) (Responds 60000 (json_response (js_location nairobi))))
      NAIROBI_LAT NAIROBI_LON (Num (Fin 5)) =
     Some (Run 60420
       (Inr \<lparr>location = js_location nairobi, current = js_conditions (sample_conditions None),
             forecast = five_days\<rparr>)
       [Call (Url ''https://dataservice.accuweather.com''
                (GeopositionSearch NAIROBI_LAT NAIROBI_LON) ''k'') (Some 30000),
        Call (Url ''https://dataservice.accuweather.com''
                (CurrentConditionsOf (Str ''224758'')) ''k'') (Some 30000),
        Call (Url ''https://dataservice.accuweather.com''
                (DailyForecastOf (Num (Fin 5)) (Str ''224758'')) ''k'') (Some 30000),
        Call (Url ''https://dataservice.accuweather.com''
                (LocationByKey (Str ''224758'')) ''k'') None])
   \<and> getWeatherForecast (new_client ''k'') (sample_provider (daily_forecasts five_days) Hangs)
      NAIROBI_LAT NAIROBI_LON (Num (Fin 5)) = None"
proof -
  have "take 5 five_days = five_days"
    by (simp add: length_five_days)
  then show ?thesis
    by (simp add: getWeatherForecast_def Let_def default_days_Num sample_getLocationKey
        sample_promise_all fetch_plain_def sample_provider_def json_response_def ok_def
        new_client_simps)
qed

text \<open>
  Claim C7 as stated fails on the location-details call of \<open>getWeatherForecast\<close>: a 401
  with the body ``Api Authorization failed'' ends in the error
  \<^verbatim>\<open>Failed to get location details: 401\<close>, which carries the status code and neither
  the body nor the status text.
\<close>

theorem getWeatherForecast_details_401_counterexample:
  "map_option outcome (getWeatherForecast (new_client ''k'')
      (sample_provider (daily_forecasts five_days)
         (Responds 150 (error_response 401 ''Unauthorized'' ''Api Authorization failed'')))
      NAIROBI_LAT NAIROBI_LON (Num (Fin 5))) = Some (Inl (LocationDetailsFailed 401))
   \<and> LocationDetailsFailed 401 \<noteq> ApiError 401 ''Api Authorization failed''
   \<and> LocationDetailsFailed 401 \<noteq> ApiError 401 ''Unauthorized''"
  by (simp add: sample_outcome error_response_def ok_def)

text \<open>
  Claim C7, amended. A response with a non-success status that reaches
  \<open>getLocationKey\<close>, \<open>getCurrentConditions\<close> or \<open>getForecast\<close> (valid arguments, the
  response in before the 30 seconds are over) makes the method fail with the
  UpstreamError \<open>ApiError\<close>, carrying the status code and the response body, or the
  status text when the body is empty. On the location-details call of
  \<open>getWeatherForecast\<close> a non-success status makes it fail with the UpstreamError
  \<open>LocationDetailsFailed\<close>, carrying the status code only.
\<close>

theorem non_success_status_is_upstream_error:
  assumes "\<not> ok resp" "d < 30000"
  shows "(finite_in (- 90) 90 lat \<and> finite_in (- 180) 180 lon
          \<and> net (Url (baseUrl c) (GeopositionSearch lat lon) (apiKey c)) = Responds d resp
          \<longrightarrow> outcome (getLocationKey c net lat lon) = Inl (api_error resp))
       \<and> (truthy key \<and> is_string key
          \<and> net (Url (baseUrl c) (CurrentConditionsOf key) (apiKey c)) = Responds d resp
          \<longrightarrow> outcome (getCurrentConditions c net key) = Inl (api_error resp))
       \<and> (truthy key \<and> is_string key \<and> finite_in 1 15 days
          \<and> net (Url (baseUrl c) (DailyForecastOf days key) (apiKey c)) = Responds d resp
          \<longrightarrow> outcome (getForecast c net key days) = Inl (api_error resp))
       \<and> (outcome (getLocationKey c net lat lon) = Inr key
          \<and> outcome (getCurrentConditions c net key) = Inr cur
          \<and> outcome (getForecast c net key (default_days days)) = Inr fc
          \<and> net (Url (baseUrl c) (LocationByKey key) (apiKey c)) = Responds d' resp
          \<longrightarrow> map_option outcome (getWeatherForecast c net lat lon days)
                = Some (Inl (LocationDetailsFailed (status resp))))
       \<and> api_error resp = ApiError (status resp)
            (if bodyText resp \<noteq> [] then bodyText resp else statusText resp)
       \<and> kind_of (api_error resp) = UpstreamError
       \<and> kind_of (LocationDetailsFailed (status resp)) = UpstreamError"
proof -
  have "outcome (getLocationKey c net lat lon) = Inl (api_error resp)"
    if "finite_in (- 90) 90 lat" "finite_in (- 180) 180 lon"
      "net (Url (baseUrl c) (GeopositionSearch lat lon) (apiKey c)) = Responds d resp"
    using getLocationKey_responds [where net = net, OF that assms(2)] read_not_ok(1) [OF assms(1)]
    by simp
  moreover have "outcome (getCurrentConditions c net key) = Inl (api_error resp)"
    if "truthy key" "is_string key"
      "net (Url (baseUrl c) (CurrentConditionsOf key) (apiKey c)) = Responds d resp"
    using getCurrentConditions_responds [where net = net, OF that assms(2)] read_not_ok(2) [OF assms(1)]
    by simp
  moreover have "outcome (getForecast c net key days) = Inl (api_error resp)"
    if "truthy key" "is_string key" "finite_in 1 15 days"
      "net (Url (baseUrl c) (DailyForecastOf days key) (apiKey c)) = Responds d resp"
    using getForecast_responds [where net = net, OF that assms(2)] read_not_ok(3) [OF assms(1)]
    by simp
  moreover have "map_option outcome (getWeatherForecast c net lat lon days)
      = Some (Inl (LocationDetailsFailed (status resp)))"
    if "outcome (getLocationKey c net lat lon) = Inr key"
      "outcome (getCurrentConditions c net key) = Inr cur"
      "outcome (getForecast c net key (default_days days)) = Inr fc"
      "net (Url (baseUrl c) (LocationByKey key) (apiKey c)) = Responds d' resp"
    using getWeatherForecast_after_three [OF that(1-3)] that(4) assms(1)
    by simp
  ultimately show ?thesis
    by (simp add: api_error_def)
qed

theorem non_success_status_is_upstream_error_witness:
  "outcome (getForecast (new_client ''k'')
      (always (Responds 90 (error_response 401 ''Unauthorized'' ''Api Authorization failed'')))
      (Str ''224758'') (Num (Fin 5))) = Inl (ApiError 401 ''Api Authorization failed'')
   \<and> outcome (getLocationKey (new_client ''k'')
      (always (Responds 90 (error_response 401 ''Unauthorized'' [])))
      NAIROBI_LAT NAIROBI_LON) = Inl (ApiError 401 ''Unauthorized'')"
  using non_success_status_is_upstream_error
      [of "error_response 401 ''Unauthorized'' ''Api Authorization failed''" 90 NAIROBI_LAT NAIROBI_LON
        "always (Responds 90 (error_response 401 ''Unauthorized'' ''Api Authorization failed''))"
        "new_client ''k''" "Str ''224758''" "Num (Fin 5)"]
    non_success_status_is_upstream_error
      [of "error_response 401 ''Unauthorized'' []" 90 NAIROBI_LAT NAIROBI_LON
        "always (Responds 90 (error_response 401 ''Unauthorized'' []))"
        "new_client ''k''" "Str ''224758''" "Num (Fin 5)"]
    nairobi_in_range
  by (simp add: error_response_def ok_def always_def finite_in_def)

subsection \<open>The forecast of the bundle\<close>

text \<open>
  Claim C3 as stated fails: asked for 5 days, a provider that returns 3 entries makes
  \<open>getWeatherForecast\<close> succeed with a forecast of length 3.
\<close>

theorem getWeatherForecast_short_forecast_counterexample:
  "map_option outcome (getWeatherForecast (new_client ''k'')
      (sample_provider (daily_forecasts (take 3 five_days)) details_ok)
      NAIROBI_LAT NAIROBI_LON (Num (Fin 5))) =
     Some (Inr \<lparr>location = js_location nairobi, current = js_conditions (sample_conditions None),
                forecast = take 3 five_days\<rparr>)
   \<and> length (take 3 five_days) = 3"
  by (simp add: sample_outcome details_ok_def json_response_def ok_def length_five_days)

text \<open>
  Claim C3, amended. For every successful \<open>getWeatherForecast\<close> call with a whole day
  count \<open>n\<close>, the forecast of the bundle is the first \<open>n\<close> entries of the
  \<^verbatim>\<open>DailyForecasts\<close> array the provider returned for that request, in the provider's
  order; its length is the smaller of \<open>n\<close> and the length of that array (so exactly
  \<open>n\<close> when the provider returns at least \<open>n\<close> entries, as in the scenario with 5
  days and a 5-day response).
\<close>

theorem getWeatherForecast_forecast_is_prefix:
  assumes "getWeatherForecast c net lat lon (Num (Fin (of_nat n))) = Some r"
    and "outcome r = Inr b"
  shows "\<exists>key d resp data ds.
      net (Url (baseUrl c) (DailyForecastOf (Num (Fin (of_nat n))) key) (apiKey c)) = Responds d resp
      \<and> bodyJson resp = Some data
      \<and> get_prop data ''DailyForecasts'' = Inr (Arr ds)
      \<and> forecast b = take n ds
      \<and> length (forecast b) = min n (length ds)"
proof -
  from getWeatherForecast_InrD [OF assms] obtain key where
    "outcome (getForecast c net key (Num (Fin (of_nat n)))) = Inr (forecast b)"
    by (auto simp: default_days_Num)
  from getForecast_InrD [OF this] obtain d resp where
    net: "net (Url (baseUrl c) (DailyForecastOf (Num (Fin (of_nat n))) key) (apiKey c)) = Responds d resp"
    and rd: "read_forecast (Num (Fin (of_nat n))) resp = Inr (forecast b)"
    by (auto simp: default_days_Num)
  from read_forecast_InrD [OF rd] obtain data ds where
    "bodyJson resp = Some data" "get_prop data ''DailyForecasts'' = Inr (Arr ds)"
    "forecast b = take n ds"
    by (auto simp: slice0_of_nat)
  with net show ?thesis
    by (intro exI [of _ key] exI [of _ d] exI [of _ resp] exI [of _ data] exI [of _ ds]) simp
qed

theorem getWeatherForecast_forecast_is_prefix_witness:
  "\<exists>r b. getWeatherForecast (new_client ''k'')
      (sample_provider (daily_forecasts five_days) details_ok)
      NAIROBI_LAT NAIROBI_LON (Num (Fin 5)) = Some r
    \<and> outcome r = Inr b \<and> forecast b = five_days \<and> length (forecast b) = 5"
proof -
  have "map_option outcome (getWeatherForecast (new_client ''k'')
      (sample_provider (daily_forecasts five_days) details_ok)
      NAIROBI_LAT NAIROBI_LON (Num (Fin 5))) =
     Some (Inr \<lparr>location = js_location nairobi, current = js_conditions (sample_conditions None),
                forecast = five_days\<rparr>)"
    by (simp add: sample_outcome details_ok_def json_response_def ok_def length_five_days)
  then obtain r b where r: "getWeatherForecast (new_client ''k'')
      (sample_provider (daily_forecasts five_days) details_ok)
      NAIROBI_LAT NAIROBI_LON (Num (Fin (of_nat 5))) = Some r" "outcome r = Inr b"
    by auto
  from getWeatherForecast_forecast_is_prefix [OF r]
  have "forecast b = five_days \<and> length (forecast b) = 5"
    by (auto simp: sample_provider_def json_response_def daily_forecasts_def length_five_days)
  with r show ?thesis
    by auto
qed

section \<open>Shaping\<close>

subsection \<open>The current-conditions document\<close>

lemma value_unit_paths:
  "get_prop (js_value_unit v) ''Value'' = Inr (Num (Value v))"
  "get_prop (js_value_unit v) ''Unit'' = Inr (Str (Unit v))"
  by (simp_all add: js_value_unit_def)

lemma shape_current_fields:
  "get_path (js_conditions c) [''Temperature'', ''Metric'', ''Value''] = Inr (Num (Value (Temperature_Metric c)))"
  "get_path (js_conditions c) [''Temperature'', ''Metric'', ''Unit''] = Inr (Str (Unit (Temperature_Metric c)))"
  "get_path (js_conditions c) [''WeatherText''] = Inr (Str (WeatherText c))"
  "get_path (js_conditions c) [''RelativeHumidity''] = Inr (Num (RelativeHumidity c))"
  "get_path (js_conditions c) [''Wind'', ''Speed'', ''Metric'', ''Value''] = Inr (Num (Value (Wind_Speed_Metric c)))"
  "get_path (js_conditions c) [''Wind'', ''Speed'', ''Metric'', ''Unit''] = Inr (Str (Unit (Wind_Speed_Metric c)))"
  "get_path (js_conditions c) [''Wind'', ''Direction'', ''Localized''] = Inr (Str (Wind_Direction_Localized c))"
  "get_path (js_conditions c) [''HasPrecipitation''] = Inr (Bool (HasPrecipitation c))"
  by (simp_all add: js_conditions_def value_unit_paths)

lemma precipitation_type_prop:
  "get_prop (js_conditions c) ''PrecipitationType'' =
     Inr (case PrecipitationType c of None \<Rightarrow> Undefined | Some p \<Rightarrow> Str p)"
  by (simp add: js_conditions_def split: option.splits)

lemma shapeCurrentConditionsResponse_typed:
  "shapeCurrentConditionsResponse lat lon (js_conditions c) = Inr (Obj
     [(''location'', Obj [(''latitude'', lat), (''longitude'', lon)]),
      (''current'', Obj
         [(''temperature'', Num (Value (Temperature_Metric c))),
          (''temp_unit'', Str (Unit (Temperature_Metric c))),
          (''conditions'', Str (WeatherText c)),
          (''humidity'', Num (RelativeHumidity c)),
          (''wind_speed'', Num (Value (Wind_Speed_Metric c))),
          (''wind_unit'', Str (Unit (Wind_Speed_Metric c))),
          (''wind_direction'', Str (Wind_Direction_Localized c)),
          (''has_precipitation'', Bool (HasPrecipitation c)),
          (''precipitation_type'',
             js_or (case PrecipitationType c of None \<Rightarrow> Undefined | Some p \<Rightarrow> Str p)
               (Str ''none''))]),
      (''data_source'', Str ''AccuWeather API'')])"
  by (simp add: shapeCurrentConditionsResponse_def object_literal_def shape_current_fields
      precipitation_type_prop del: get_path.simps)

lemma precipitation_type_shaped:
  "doc_path (shapeCurrentConditionsResponse lat lon (js_conditions c))
       [''current'', ''precipitation_type'']
     = Inr (Str (case PrecipitationType c of
                   None \<Rightarrow> ''none''
                 | Some p \<Rightarrow> if p = [] then ''none'' else p))"
  by (simp add: doc_path_def shapeCurrentConditionsResponse_typed js_or_def split: option.splits)

text \<open>
  Claim C8 as stated fails in its second half: a \<^verbatim>\<open>PrecipitationType\<close> that is present and
  is the empty string comes out as \<^verbatim>\<open>"none"\<close>, not as the value it holds.
\<close>

theorem shapeCurrentConditionsResponse_empty_type_counterexample:
  "PrecipitationType (sample_conditions (Some [])) = Some []
   \<and> doc_path (shapeCurrentConditionsResponse NAIROBI_LAT NAIROBI_LON
        (js_conditions (sample_conditions (Some [])))) [''current'', ''precipitation_type'']
     = Inr (Str ''none'')
   \<and> Str ''none'' \<noteq> Str []"
  using precipitation_type_shaped [of NAIROBI_LAT NAIROBI_LON "sample_conditions (Some [])"]
  by (simp add: sample_conditions_def)

text \<open>
  Claim C8, amended. For every conditions value of the declared type, the shaping
  succeeds and \<^verbatim>\<open>precipitation_type\<close> is the literal \<^verbatim>\<open>"none"\<close> when \<^verbatim>\<open>PrecipitationType\<close> is
  absent or is the empty string, and is the value of \<^verbatim>\<open>PrecipitationType\<close> when that is
  present and not empty.
\<close>

theorem shapeCurrentConditionsResponse_precipitation_type:
  "doc_path (shapeCurrentConditionsResponse lat lon (js_conditions c))
       [''current'', ''precipitation_type'']
     = Inr (Str (case PrecipitationType c of
                   None \<Rightarrow> ''none''
                 | Some p \<Rightarrow> if p = [] then ''none'' else p))"
  by (rule precipitation_type_shaped)

theorem shapeCurrentConditionsResponse_precipitation_type_witness:
  "doc_path (shapeCurrentConditionsResponse NAIROBI_LAT NAIROBI_LON
        (js_conditions (sample_conditions None))) [''current'', ''precipitation_type'']
     = Inr (Str ''none'')
   \<and> doc_path (shapeCurrentConditionsResponse NAIROBI_LAT NAIROBI_LON
        (js_conditions (sample_conditions (Some ''Rain'')))) [''current'', ''precipitation_type'']
     = Inr (Str ''Rain'')"
  using shapeCurrentConditionsResponse_precipitation_type
      [of NAIROBI_LAT NAIROBI_LON "sample_conditions None"]
    shapeCurrentConditionsResponse_precipitation_type
      [of NAIROBI_LAT NAIROBI_LON "sample_conditions (Some ''Rain'')"]
  by (simp add: sample_conditions_def)

subsection \<open>Dates\<close>

lemma split_on_first: "\<exists>ps. split_on c s = takeWhile (\<lambda>x. x \<noteq> c) s # ps"
  by (induction s) (auto split: list.splits)

lemma digit_not_T: "is_digit ch \<Longrightarrow> ch \<noteq> CHR ''T''"
  by (auto simp: is_digit_def)

lemma calendar_date_no_T:
  assumes "is_calendar_date d" "i < 10"
  shows "d ! i \<noteq> CHR ''T''"
proof -
  from assms(2) have "i = 0 \<or> i = 1 \<or> i = 2 \<or> i = 3 \<or> i = 4
      \<or> i = 5 \<or> i = 6 \<or> i = 7 \<or> i = 8 \<or> i = 9"
    by presburger
  then show ?thesis
    using assms(1) unfolding is_calendar_date_def
    by (elim disjE conjE) (simp_all add: digit_not_T)
qed

lemma iso_datetime_date_part:
  assumes "is_iso_datetime s"
  shows "takeWhile (\<lambda>x. x \<noteq> CHR ''T'') s = take 10 s"
proof (rule takeWhile_eq_take_P_nth)
  fix i assume "i < 10" "i < length s"
  then have "take 10 s ! i \<noteq> CHR ''T''"
    using assms by (intro calendar_date_no_T) (simp_all add: is_iso_datetime_def)
  with \<open>i < 10\<close> show "s ! i \<noteq> CHR ''T''"
    by simp
next
  assume "10 < length s"
  show "\<not> s ! 10 \<noteq> CHR ''T''"
    using assms by (simp add: is_iso_datetime_def)
qed

subsection \<open>The forecast document\<close>

lemma date_of_typed:
  "date_of (js_forecast f) = Inr (Str (takeWhile (\<lambda>x. x \<noteq> CHR ''T'') (Date f)))"
proof -
  obtain ps where "split_on CHR ''T'' (Date f) = takeWhile (\<lambda>x. x \<noteq> CHR ''T'') (Date f) # ps"
    using split_on_first by blast
  then show ?thesis
    by (simp add: date_of_def js_forecast_def)
qed

lemma shape_day_fields:
  "get_path (js_forecast f) [''Temperature'', ''Maximum'', ''Value''] = Inr (Num (Value (Temperature_Maximum f)))"
  "get_path (js_forecast f) [''Temperature'', ''Minimum'', ''Value''] = Inr (Num (Value (Temperature_Minimum f)))"
  "get_path (js_forecast f) [''Temperature'', ''Maximum'', ''Unit''] = Inr (Str (Unit (Temperature_Maximum f)))"
  "get_path (js_forecast f) [''Day'', ''IconPhrase''] = Inr (Str (Day_IconPhrase f))"
  "get_path (js_forecast f) [''Day'', ''PrecipitationProbability''] = Inr (Num (Day_PrecipitationProbability f))"
  "get_path (js_forecast f) [''Night'', ''IconPhrase''] = Inr (Str (Night_IconPhrase f))"
  "get_path (js_forecast f) [''Night'', ''PrecipitationProbability''] = Inr (Num (Night_PrecipitationProbability f))"
  "get_path (js_forecast f) [''Day'', ''Wind'', ''Speed'', ''Value''] = Inr (Num (Value (Day_Wind_Speed f)))"
  "get_path (js_forecast f) [''Day'', ''Wind'', ''Speed'', ''Unit''] = Inr (Str (Unit (Day_Wind_Speed f)))"
  by (simp_all add: js_forecast_def value_unit_paths)

lemma shape_day_typed: "shape_day (js_forecast f) = Inr (shaped_day f)"
  by (simp add: shape_day_def shaped_day_def object_literal_def date_of_typed shape_day_fields
      del: get_path.simps)

lemma map_err_typed: "map_err shape_day (map js_forecast fs) = Inr (map shaped_day fs)"
  by (induction fs) (simp_all add: shape_day_typed)

lemma shaped_day_date:
  "get_prop (shaped_day f) ''date'' = Inr (Str (takeWhile (\<lambda>x. x \<noteq> CHR ''T'') (Date f)))"
  by (simp add: shaped_day_def)

lemma shape_location_fields:
  "get_path (js_location l) [''LocalizedName''] = Inr (Str (LocalizedName l))"
  "get_path (js_location l) [''Country'', ''LocalizedName''] = Inr (Str (Country_LocalizedName l))"
  "region_of (js_location l) = Inr (Str (AdministrativeArea_LocalizedName l))"
  by (simp_all add: js_location_def region_of_def opt_prop_def)

lemma js_index_first_last:
  assumes "xs \<noteq> []"
  shows "js_index xs 0 = hd xs" "js_index xs (int (length xs) - 1) = last xs"
proof -
  show "js_index xs 0 = hd xs"
    using assms by (simp add: js_index_def hd_conv_nth)
  have "nat (int (length xs) - 1) = length xs - 1"
    by simp
  then show "js_index xs (int (length xs) - 1) = last xs"
    using assms by (simp add: js_index_def last_conv_nth)
qed

lemma shapeForecastResponse_typed:
  assumes "fs \<noteq> []"
  shows "shapeForecastResponse lat lon
      \<lparr>location = js_location l, current = js_conditions c, forecast = map js_forecast fs\<rparr> days =
    Inr (Obj
     [(''location'', Obj
         [(''latitude'', lat),
          (''longitude'', lon),
          (''name'', Str (LocalizedName l)),
          (''country'', Str (Country_LocalizedName l)),
          (''region'', Str (AdministrativeArea_LocalizedName l))]),
      (''current'', Obj
         [(''temperature'', Num (Value (Temperature_Metric c))),
          (''temp_unit'', Str (Unit (Temperature_Metric c))),
          (''conditions'', Str (WeatherText c)),
          (''humidity'', Num (RelativeHumidity c)),
          (''wind_speed'', Num (Value (Wind_Speed_Metric c))),
          (''wind_unit'', Str (Unit (Wind_Speed_Metric c))),
          (''wind_direction'', Str (Wind_Direction_Localized c))]),
      (''period'', Obj
         [(''days'', days),
          (''start_date'', Str (takeWhile (\<lambda>x. x \<noteq> CHR ''T'') (Date (hd fs)))),
          (''end_date'', Str (takeWhile (\<lambda>x. x \<noteq> CHR ''T'') (Date (last fs))))]),
      (''forecast'', Arr (map shaped_day fs)),
      (''data_source'', Str ''AccuWeather API'')])"
proof -
  have ne: "map shaped_day fs \<noteq> []"
    using assms by simp
  have "get_prop (js_index (map shaped_day fs) 0) ''date''
      = Inr (Str (takeWhile (\<lambda>x. x \<noteq> CHR ''T'') (Date (hd fs))))"
    using assms by (simp add: js_index_first_last(1) [OF ne] hd_map shaped_day_date)
  moreover have "js_index (map shaped_day fs) (int (length (map shaped_day fs)) - 1)
      = shaped_day (last fs)"
    using assms js_index_first_last(2) [OF ne] by (simp add: last_map)
  then have "get_prop (js_index (map shaped_day fs) (int (length (map shaped_day fs)) - 1)) ''date''
      = Inr (Str (takeWhile (\<lambda>x. x \<noteq> CHR ''T'') (Date (last fs))))"
    by (simp only: shaped_day_date)
  ultimately show ?thesis
    by (simp add: shapeForecastResponse_def map_err_typed object_literal_def
        shape_location_fields shape_current_fields del: get_path.simps get_prop.simps)
qed

text \<open>
  Claim C9. For every bundle of the declared types whose forecast is not empty (the
  claim speaks of its first and last entries) and whose entries carry ISO date-times,
  the shaping succeeds; each entry of the shaped forecast has as its \<^verbatim>\<open>date\<close> the calendar
  date of the corresponding entry, the first ten characters, with the time of day gone;
  and \<^verbatim>\<open>period.start_date\<close> and \<^verbatim>\<open>period.end_date\<close> are the \<^verbatim>\<open>date\<close> fields of the first and
  the last entry of the shaped forecast.
\<close>

theorem shapeForecastResponse_calendar_dates:
  assumes "fs \<noteq> []" "\<forall>f \<in> set fs. is_iso_datetime (Date f)"
  shows "\<exists>doc fc.
      shapeForecastResponse lat lon
        \<lparr>location = js_location l, current = js_conditions c, forecast = map js_forecast fs\<rparr> days
        = Inr doc
      \<and> get_prop doc ''forecast'' = Inr (Arr fc)
      \<and> length fc = length fs
      \<and> map (\<lambda>e. get_prop e ''date'') fc = map (\<lambda>f. Inr (Str (take 10 (Date f)))) fs
      \<and> get_path doc [''period'', ''start_date''] = get_prop (hd fc) ''date''
      \<and> get_path doc [''period'', ''end_date''] = get_prop (last fc) ''date''
      \<and> get_path doc [''period'', ''start_date''] = Inr (Str (take 10 (Date (hd fs))))
      \<and> get_path doc [''period'', ''end_date''] = Inr (Str (take 10 (Date (last fs))))"
proof -
  have dates: "takeWhile (\<lambda>x. x \<noteq> CHR ''T'') (Date f) = take 10 (Date f)" if "f \<in> set fs" for f
    using assms(2) that by (simp add: iso_datetime_date_part)
  have ends: "hd fs \<in> set fs" "last fs \<in> set fs"
    using assms(1) by simp_all
  have "map (\<lambda>e. get_prop e ''date'') (map shaped_day fs)
      = map (\<lambda>f. Inr (Str (take 10 (Date f)))) fs"
    using dates by (simp add: shaped_day_date)
  moreover have "get_prop (hd (map shaped_day fs)) ''date'' = Inr (Str (take 10 (Date (hd fs))))"
    "get_prop (last (map shaped_day fs)) ''date'' = Inr (Str (take 10 (Date (last fs))))"
    using assms(1) dates ends by (simp_all add: hd_map last_map shaped_day_date)
  ultimately show ?thesis
    using dates ends
    by (simp add: shapeForecastResponse_typed [OF assms(1)])
qed

theorem shapeForecastResponse_calendar_dates_witness:
  "doc_path (shapeForecastResponse NAIROBI_LAT NAIROBI_LON
      \<lparr>location = js_location nairobi, current = js_conditions (sample_conditions None),
        forecast = map js_forecast [sample_day ''2025-11-05T00:00:00'', sample_day ''2025-11-06T00:00:00'']\<rparr>
      (Num (Fin 2))) [''period'', ''start_date''] = Inr (Str ''2025-11-05'')
   \<and> doc_path (shapeForecastResponse NAIROBI_LAT NAIROBI_LON
      \<lparr>location = js_location nairobi, current = js_conditions (sample_conditions None),
        forecast = map js_forecast [sample_day ''2025-11-05T00:00:00'', sample_day ''2025-11-06T00:00:00'']\<rparr>
      (Num (Fin 2))) [''period'', ''end_date''] = Inr (Str ''2025-11-06'')"
proof -
  let ?fs = "[sample_day ''2025-11-05T00:00:00'', sample_day ''2025-11-06T00:00:00'']"
  have iso: "\<forall>f \<in> set ?fs. is_iso_datetime (Date f)"
    by (simp add: sample_day_def is_iso_datetime_def is_calendar_date_def is_digit_def)
  have ne: "?fs \<noteq> []"
    by simp
  from shapeForecastResponse_calendar_dates [OF ne iso, of NAIROBI_LAT NAIROBI_LON nairobi
      "sample_conditions None" "Num (Fin 2)"]
  obtain doc where
    "shapeForecastResponse NAIROBI_LAT NAIROBI_LON
      \<lparr>location = js_location nairobi, current = js_conditions (sample_conditions None),
        forecast = map js_forecast ?fs\<rparr> (Num (Fin 2)) = Inr doc"
    "get_path doc [''period'', ''start_date''] = Inr (Str (take 10 (Date (hd ?fs))))"
    "get_path doc [''period'', ''end_date''] = Inr (Str (take 10 (Date (last ?fs))))"
    by blast
  then show ?thesis
    by (simp add: doc_path_def sample_day_def del: get_path.simps)
qed

subsection \<open>The empty forecast\<close>

lemma type_error_only_simps:
  "type_error_only (Inr v)"
  "type_error_only (Inl TypeError)"
  "type_error_only (get_prop w k)"
  "type_error_only (get_path w ks)"
  "type_error_only (region_of w)"
  by (auto simp: type_error_only_def region_of_def opt_prop_def split: sum.splits
      dest: get_prop_error get_path_error)

lemma eval_fields_type_error_only:
  "\<forall>(k, r) \<in> set fs. type_error_only r \<Longrightarrow> type_error_only (eval_fields fs)"
  by (induction fs rule: eval_fields.induct)
     (auto simp: type_error_only_def split: sum.splits)

lemma object_literal_type_error_only:
  "\<forall>(k, r) \<in> set fs. type_error_only r \<Longrightarrow> type_error_only (object_literal fs)"
  using eval_fields_type_error_only [of fs]
  by (auto simp: object_literal_def type_error_only_def split: sum.splits)

lemma eval_fields_fails:
  "(k, Inl e) \<in> set fs \<Longrightarrow> \<exists>e'. eval_fields fs = Inl e'"
  by (induction fs rule: eval_fields.induct) (auto split: sum.splits)

lemma object_literal_fails:
  "(k, Inl e) \<in> set fs \<Longrightarrow> \<exists>e'. object_literal fs = Inl e'"
  using eval_fields_fails [of k e fs] by (auto simp: object_literal_def)

lemma shapeForecastResponse_empty:
  "shapeForecastResponse lat lon \<lparr>location = loc, current = cur, forecast = []\<rparr> days = Inl TypeError"
proof -
  let ?L = "object_literal
      [(''latitude'', Inr lat), (''longitude'', Inr lon),
       (''name'', get_path loc [''LocalizedName'']),
       (''country'', get_path loc [''Country'', ''LocalizedName'']),
       (''region'', region_of loc)]"
  let ?C = "object_literal
      [(''temperature'', get_path cur [''Temperature'', ''Metric'', ''Value'']),
       (''temp_unit'', get_path cur [''Temperature'', ''Metric'', ''Unit'']),
       (''conditions'', get_path cur [''WeatherText'']),
       (''humidity'', get_path cur [''RelativeHumidity'']),
       (''wind_speed'', get_path cur [''Wind'', ''Speed'', ''Metric'', ''Value'']),
       (''wind_unit'', get_path cur [''Wind'', ''Speed'', ''Metric'', ''Unit'']),
       (''wind_direction'', get_path cur [''Wind'', ''Direction'', ''Localized''])]"
  let ?fs = "[(''location'', ?L), (''current'', ?C), (''period'', Inl TypeError),
       (''forecast'', Inr (Arr [])), (''data_source'', Inr (Str ''AccuWeather API''))]"
  have period: "object_literal
      [(''days'', Inr days), (''start_date'', get_prop (js_index [] 0) ''date''),
       (''end_date'', get_prop (js_index [] (int (length ([] :: jsval list)) - 1)) ''date'')]
      = Inl TypeError"
    by (simp add: object_literal_def js_index_def)
  have shape: "shapeForecastResponse lat lon \<lparr>location = loc, current = cur, forecast = []\<rparr> days
      = object_literal ?fs"
    unfolding shapeForecastResponse_def using period by simp
  have "type_error_only ?L" "type_error_only ?C"
    by (rule object_literal_type_error_only, simp add: type_error_only_simps del: get_path.simps)+
  then have "type_error_only (object_literal ?fs)"
    by (intro object_literal_type_error_only) (simp add: type_error_only_simps)
  moreover obtain e' where "object_literal ?fs = Inl e'"
    using object_literal_fails [of "''period''" TypeError ?fs] by auto
  ultimately show ?thesis
    unfolding shape by (simp add: type_error_only_def)
qed

text \<open>
  Claim C10. There is a successful provider response, \<^verbatim>\<open>DailyForecasts\<close> present and
  empty, on which \<open>getForecast\<close> returns the empty sequence and raises nothing; on a
  bundle with an empty forecast the shaping step always fails, with the TypeError of
  reading \<^verbatim>\<open>date\<close> from \<^verbatim>\<open>forecast[0]\<close>; and the forecast tool run against such a provider
  ends in that caught TypeError.
\<close>

theorem empty_forecast_breaks_shaping:
  "getForecast (new_client ''k'')
      (always (Responds 300 (json_response (daily_forecasts [])))) (Str ''224758'') (Num (Fin 5))
     = Run 300 (Inr [])
        [Call (Url ''https://dataservice.accuweather.com''
                 (DailyForecastOf (Num (Fin 5)) (Str ''224758'')) ''k'') (Some 30000)]
   \<and> (\<forall>lat lon loc cur days.
        shapeForecastResponse lat lon \<lparr>location = loc, current = cur, forecast = []\<rparr> days
          = Inl TypeError)
   \<and> forecast_tool (Some (new_client ''k'')) (sample_provider (daily_forecasts []) details_ok)
        Undefined Undefined Undefined Undefined (Num (Fin 5))
     = Some (IsError (Caught TypeError))"
proof -
  have f: "finite_in 1 15 (Num (Fin 5))"
    by (simp add: finite_in_def)
  have "read_forecast (Num (Fin 5)) (json_response (daily_forecasts [])) = Inr []"
    by (simp add: read_forecast_def json_response_def ok_def daily_forecasts_def slice0_def)
  then have one: "getForecast (new_client ''k'')
      (always (Responds 300 (json_response (daily_forecasts [])))) (Str ''224758'') (Num (Fin 5))
     = Run 300 (Inr [])
        [Call (Url ''https://dataservice.accuweather.com''
                 (DailyForecastOf (Num (Fin 5)) (Str ''224758'')) ''k'') (Some 30000)]"
    using getForecast_responds [of "Str ''224758''" "Num (Fin 5)"
        "always (Responds 300 (json_response (daily_forecasts [])))" "new_client ''k''" 300
        "json_response (daily_forecasts [])", OF _ _ f]
    by (simp add: always_def new_client_simps)
  have "map_option outcome (getWeatherForecast (new_client ''k'')
      (sample_provider (daily_forecasts []) details_ok) NAIROBI_LAT NAIROBI_LON (Num (Fin 5)))
     = Some (Inr \<lparr>location = js_location nairobi,
          current = js_conditions (sample_conditions None), forecast = []\<rparr>)"
    by (simp add: sample_outcome details_ok_def json_response_def ok_def)
  then obtain r where r: "getWeatherForecast (new_client ''k'')
      (sample_provider (daily_forecasts []) details_ok) NAIROBI_LAT NAIROBI_LON (Num (Fin 5)) = Some r"
    "outcome r = Inr \<lparr>location = js_location nairobi,
          current = js_conditions (sample_conditions None), forecast = []\<rparr>"
    by auto
  have lat: "\<not> (\<not> is_number NAIROBI_LAT \<or> isNaN NAIROBI_LAT \<or> lt_num NAIROBI_LAT (- 90) \<or> gt_num NAIROBI_LAT 90)"
    and lon: "\<not> (\<not> is_number NAIROBI_LON \<or> isNaN NAIROBI_LON \<or> lt_num NAIROBI_LON (- 180) \<or> gt_num NAIROBI_LON 180)"
    using nairobi_in_range by (simp_all only: range_check_iff not_not)
  have co: "coalesce (coalesce Undefined Undefined) v = v" for v
    by (simp add: coalesce_def)
  have three: "forecast_tool (Some (new_client ''k'')) (sample_provider (daily_forecasts []) details_ok)
        Undefined Undefined Undefined Undefined (Num (Fin 5))
     = Some (IsError (Caught TypeError))"
    unfolding forecast_tool_def Let_def co default_days_Num
    using lat lon days_accepted [OF f] r
    by (simp add: shapeForecastResponse_empty)
  from one three show ?thesis
    by (simp add: shapeForecastResponse_empty)
qed

theorem empty_forecast_breaks_shaping_witness:
  "shapeForecastResponse NAIROBI_LAT NAIROBI_LON
      \<lparr>location = js_location nairobi, current = js_conditions (sample_conditions None),
        forecast = []\<rparr> (Num (Fin 5)) = Inl TypeError
   \<and> outcome (getForecast (new_client ''k'')
      (always (Responds 300 (json_response (daily_forecasts [])))) (Str ''224758'') (Num (Fin 5)))
     = Inr []"
  using empty_forecast_breaks_shaping by simp

end
